theory Spec2Isabelle
  imports Main
begin

section \<open>Strings as the handler uses them\<close>

text \<open>
  A Python string is modelled as a \<open>string\<close>; one \<open>char\<close> stands for one code point
  in the range 0..255. The two character classes below are Python's \<open>str.isspace\<close> and
  \<open>str.isalnum\<close> on that range.
\<close>

definition isspace :: "char \<Rightarrow> bool" where
  "isspace c = ((of_char c :: nat) \<in> {9, 10, 11, 12, 13, 28, 29, 30, 31, 32, 133, 160})"

definition isalnum :: "char \<Rightarrow> bool" where
  "isalnum c =
     (let n = (of_char c :: nat)
      in (48 \<le> n \<and> n \<le> 57) \<or> (65 \<le> n \<and> n \<le> 90) \<or> (97 \<le> n \<and> n \<le> 122)
         \<or> n \<in> {170, 178, 179, 181, 185, 186, 188, 189, 190}
         \<or> (192 \<le> n \<and> n \<le> 214) \<or> (216 \<le> n \<and> n \<le> 246) \<or> (248 \<le> n \<and> n \<le> 255))"

text \<open>\<open>s.strip()\<close>: whitespace is removed at both ends.\<close>

definition strip :: "string \<Rightarrow> string" where
  "strip s = rev (dropWhile isspace (rev (dropWhile isspace s)))"

text \<open>\<open>s.replace(' ', '_')\<close>.\<close>

definition replace_space :: "string \<Rightarrow> string" where
  "replace_space s = map (\<lambda>c. if c = CHR '' '' then CHR ''_'' else c) s"

text \<open>
  The character test of the generator expression in \<open>upload_image\<close>:
  \<open>c.isalnum() or c in (' ', '-', '_')\<close>.
\<close>

definition keep_char :: "char \<Rightarrow> bool" where
  "keep_char c = (isalnum c \<or> c \<in> {CHR '' '', CHR ''-'', CHR ''_''})"

text \<open>
  \<open>"".join(c for c in name if c.isalnum() or c in (' ', '-', '_')).strip().replace(' ', '_')\<close>,
  the expression behind \<open>clean_store\<close> and \<open>clean_employee\<close>.
\<close>

definition clean_name :: "string \<Rightarrow> string" where
  "clean_name name = replace_space (strip (filter keep_char name))"

section \<open>Clock readings and identifiers\<close>

text \<open>
  \<open>datetime.now()\<close> and the date picker are inputs of the model. A reading is a record
  of calendar fields; \<open>strftime\<close> prints each field in decimal, zero-padded to the width
  of its directive (years are taken in 1000..9999, as every reading of a running clock is).
\<close>

record datetime =
  year :: nat
  month :: nat
  day :: nat
  hour :: nat
  minute :: nat
  second :: nat

definition digit_char :: "nat \<Rightarrow> char" where
  "digit_char n = ''0123456789abcdef'' ! (n mod 16)"

fun digits :: "nat \<Rightarrow> nat \<Rightarrow> nat \<Rightarrow> string" where
  "digits b 0 n = []"
| "digits b (Suc k) n = digits b k (n div b) @ [digit_char (n mod b)]"

text \<open>\<open>strftime("%Y-%m-%d")\<close>, \<open>strftime("%H%M%S")\<close> and \<open>strftime("%Y-%m-%d %H:%M:%S")\<close>.\<close>

definition strftime_date :: "datetime \<Rightarrow> string" where
  "strftime_date t =
     digits 10 4 (year t) @ ''-'' @ digits 10 2 (month t) @ ''-'' @ digits 10 2 (day t)"

definition strftime_time :: "datetime \<Rightarrow> string" where
  "strftime_time t = digits 10 2 (hour t) @ digits 10 2 (minute t) @ digits 10 2 (second t)"

definition strftime_stamp :: "datetime \<Rightarrow> string" where
  "strftime_stamp t =
     strftime_date t @ '' '' @ digits 10 2 (hour t) @ '':'' @ digits 10 2 (minute t)
       @ '':'' @ digits 10 2 (second t)"

text \<open>
  \<open>str(uuid.uuid4())\<close>: the 128-bit value printed as 32 hexadecimal digits in the groups
  8-4-4-4-12. The value itself is an input of the model.
\<close>

definition uuid_str :: "nat \<Rightarrow> string" where
  "uuid_str u =
     (let h = digits 16 32 u
      in take 8 h @ ''-'' @ take 4 (drop 8 h) @ ''-'' @ take 4 (drop 12 h) @ ''-''
           @ take 4 (drop 16 h) @ ''-'' @ drop 20 h)"

definition is_hex :: "char \<Rightarrow> bool" where
  "is_hex c = (c \<in> set ''0123456789abcdef'')"

section \<open>Images and their normalization\<close>

text \<open>
  Of a PIL image the model keeps what \<open>upload_image\<close> reads: its size, its mode string and
  the EXIF orientation tag (1 when the file has none).
\<close>

record image =
  width :: nat
  height :: nat
  mode :: string
  orientation :: nat

text \<open>
  \<open>ImageOps.exif_transpose\<close>: the tags 2..8 name a flip or rotation, which is applied and
  the tag removed; 5..8 exchange width and height. Any other tag leaves the image as it is.
\<close>

definition exif_transpose :: "image \<Rightarrow> image" where
  "exif_transpose img =
     (if orientation img \<in> {5, 6, 7, 8}
        then img\<lparr>width := height img, height := width img, orientation := 1\<rparr>
      else if orientation img \<in> {2, 3, 4} then img\<lparr>orientation := 1\<rparr>
      else img)"

text \<open>
  \<open>image.convert("RGB")\<close> and \<open>image.resize((new_width, new_height), LANCZOS)\<close>. PIL's
  \<open>resize\<close> raises \<open>ValueError\<close> for a size with a side below 1; the error value is the
  text of the exception.
\<close>

definition convert_rgb :: "image \<Rightarrow> image" where
  "convert_rgb img = img\<lparr>mode := ''RGB''\<rparr>"

definition resize :: "image \<Rightarrow> nat \<times> nat \<Rightarrow> string + image" where
  "resize img sz =
     (if fst sz < 1 \<or> snd sz < 1 then Inl ''height and width must be > 0''
      else Inr (img\<lparr>width := fst sz, height := snd sz\<rparr>))"

text \<open>
  The pair \<open>(new_width, new_height)\<close> of the resize branch. The source computes
  \<open>int((1920 * h) / w)\<close> with a float quotient; for sizes an image can have (below
  \<open>2^31\<close>) the correctly rounded double truncates to the integer quotient, which is what
  the model writes. Neither divisor is zero where its branch is taken from \<open>upload_image\<close>.
\<close>

definition new_size :: "nat \<Rightarrow> nat \<Rightarrow> nat \<times> nat" where
  "new_size w h =
     (if w > h then (1920, (1920 * h) div w)
      else ((1920 * w) div h, 1920))"

text \<open>
  The image steps of \<open>upload_image\<close>, from \<open>exif_transpose\<close> to the resize: the image that
  is handed to the JPEG encoder, or the exception of the resize.
\<close>

definition normalize :: "image \<Rightarrow> string + image" where
  "normalize image0 =
     (let image1 = exif_transpose image0;
          image2 = (if mode image1 \<in> {''RGBA'', ''P''} then convert_rgb image1 else image1)
      in if width image2 > 1920 \<or> height image2 > 1920
           then resize image2 (new_size (width image2) (height image2))
         else Inr image2)"

text \<open>
  \<open>image.save(img_bytes, format='JPEG', quality=85, optimize=True)\<close>: PIL's JPEG writer
  raises \<open>ValueError\<close> for an image with an empty side and \<open>OSError\<close> for a mode outside
  its table of raw modes (1, L, RGB, RGBX, CMYK, YCbCr); otherwise the image is encoded
  as it is.
\<close>

definition save_jpeg :: "image \<Rightarrow> string + image" where
  "save_jpeg img =
     (if width img = 0 \<or> height img = 0 then Inl ''cannot write empty image as JPEG''
      else if mode img \<in> {''1'', ''L'', ''RGB'', ''RGBX'', ''CMYK'', ''YCbCr''} then Inr img
      else Inl (''cannot write mode '' @ mode img @ '' as JPEG''))"

text \<open>The image steps and the save in sequence: the encoded image, or the first exception.\<close>

definition jpeg_of :: "image \<Rightarrow> string + image" where
  "jpeg_of image0 =
     (case normalize image0 of
        Inl e \<Rightarrow> Inl e
      | Inr img \<Rightarrow> save_jpeg img)"

text \<open>
  The reading of "carries an alpha channel or a palette" over PIL's mode strings: the
  modes with an alpha band are RGBA, LA, PA, RGBa and La; the palette modes are P and PA.
  This predicate belongs to the specification, not to the source.
\<close>

definition spec_alpha_or_palette :: "string \<Rightarrow> bool" where
  "spec_alpha_or_palette m = (m \<in> {''RGBA'', ''LA'', ''PA'', ''RGBa'', ''La'', ''P''})"

section \<open>The handler's state and the storage upload\<close>

text \<open>
  What \<open>st.success\<close>, \<open>st.warning\<close>, \<open>st.error\<close> and the two message boxes of \<open>main\<close>
  put on the page (the texts without their leading pictograph).
\<close>

datatype msg =
  Success string
  | Warning string
  | Error string
  | ErrorBox "string list"
  | SuccessBox string string

record blob =
  content :: image
  content_type :: string
  is_public :: bool

record bucket =
  bucket_name :: string
  objects :: "string \<rightharpoonup> blob"

text \<open>A cell of the main sheet holds a string or Python's \<open>None\<close>.\<close>

type_synonym cell = "string option"

text \<open>
  The handler's three worksheets and its bucket (each \<open>None\<close> when not connected), and
  the messages shown so far. A worksheet is the list of its rows, header row first.
\<close>

record handler =
  store_worksheet :: "string list list option"
  employee_worksheet :: "string list list option"
  main_worksheet :: "cell list list option"
  bucket :: "bucket option"
  shown :: "msg list"

definition say :: "msg \<Rightarrow> handler \<Rightarrow> handler" where
  "say m h = h\<lparr>shown := shown h @ [m]\<rparr>"

text \<open>
  What one call of \<open>upload_image\<close> meets outside the program: the two clock readings, the
  uuid, and the text of the exception raised, if any, by decoding the pixel data of the
  file (\<open>process_exn\<close>), by the write to storage and by \<open>make_public\<close>. The exceptions that
  the size and the mode of the image decide are not inputs: they are computed by \<open>jpeg_of\<close>.
\<close>

record upload_env =
  now_date :: datetime
  now_time :: datetime
  uuid4 :: nat
  process_exn :: "string option"
  upload_exn :: "string option"
  public_exn :: "string option"

definition object_path :: "upload_env \<Rightarrow> string \<Rightarrow> string \<Rightarrow> string \<Rightarrow> string" where
  "object_path ue store employee img_type =
     (let clean_store = clean_name store;
          clean_employee = clean_name employee;
          date_str = strftime_date (now_date ue);
          timestamp = strftime_time (now_time ue);
          unique_id = take 8 (uuid_str (uuid4 ue))
      in ''gramedia-display/'' @ clean_store @ ''/'' @ clean_employee @ ''/'' @ date_str
           @ ''/'' @ img_type @ ''/'' @ timestamp @ ''_'' @ unique_id @ ''.jpg'')"

definition public_url :: "string \<Rightarrow> string \<Rightarrow> string" where
  "public_url name path = ''https://storage.googleapis.com/'' @ name @ ''/'' @ path"

definition upload_image ::
  "handler \<Rightarrow> upload_env \<Rightarrow> image \<Rightarrow> string \<Rightarrow> string \<Rightarrow> string \<Rightarrow> string option \<times> handler"
where
  "upload_image h ue image0 store employee img_type =
     (case bucket h of
        None \<Rightarrow> (None, say (Error ''Storage bucket not connected'') h)
      | Some b \<Rightarrow>
          let path = object_path ue store employee img_type
          in case process_exn ue of
               Some e \<Rightarrow> (None, say (Error (''Image upload failed: '' @ e)) h)
             | None \<Rightarrow>
                 (case jpeg_of image0 of
                    Inl e \<Rightarrow> (None, say (Error (''Image upload failed: '' @ e)) h)
                  | Inr jpeg \<Rightarrow>
                      (case upload_exn ue of
                         Some e \<Rightarrow> (None, say (Error (''Image upload failed: '' @ e)) h)
                       | None \<Rightarrow>
                           let stored = \<lparr>content = jpeg, content_type = ''image/jpeg'',
                                          is_public = False\<rparr>;
                               h1 = h\<lparr>bucket := Some (b\<lparr>objects := (objects b)(path \<mapsto> stored)\<rparr>)\<rparr>;
                               h2 = (case public_exn ue of
                                       None \<Rightarrow>
                                         say (Success (''Image uploaded: '' @ img_type))
                                           (h1\<lparr>bucket := Some (b\<lparr>objects :=
                                              (objects b)(path \<mapsto> stored\<lparr>is_public := True\<rparr>)\<rparr>)\<rparr>)
                                     | Some e \<Rightarrow>
                                         say (Warning
                                               (''Image uploaded but could not make public: '' @ e))
                                           h1)
                           in (Some (public_url (bucket_name b) path), h2))))"

text \<open>The objects in storage, as seen through the handler (none without a bucket).\<close>

definition objects_of :: "handler \<Rightarrow> string \<rightharpoonup> blob" where
  "objects_of h = (case bucket h of None \<Rightarrow> Map.empty | Some b \<Rightarrow> objects b)"

section \<open>The store and employee catalogs\<close>

text \<open>
  A value of a record read from a sheet: \<open>get_all_records\<close> passes every cell through
  gspread's \<open>numericise\<close>, which turns a cell into an \<open>int\<close> when Python's \<open>int(value)\<close>
  accepts it, else into a \<open>float\<close> when \<open>float(value)\<close> accepts it, and leaves a cell with
  an underscore, and every other cell, a string. A number is kept as the text it was read
  from.
\<close>

datatype pyval = PyStr string | PyInt string | PyFloat string

definition is_digit :: "char \<Rightarrow> bool" where
  "is_digit c = (c \<in> set ''0123456789'')"

definition after_sign :: "string \<Rightarrow> string" where
  "after_sign s =
     (case s of
        [] \<Rightarrow> []
      | c # cs \<Rightarrow> if c = CHR ''+'' \<or> c = CHR ''-'' then cs else s)"

text \<open>
  The blanks that \<open>int\<close> and \<open>float\<close> skip at both ends of their argument (on the code
  points 0..255); the separators 28..31, which \<open>str.strip\<close> removes, are not among them.
\<close>

definition numeric_space :: "char \<Rightarrow> bool" where
  "numeric_space c = ((of_char c :: nat) \<in> {9, 10, 11, 12, 13, 32, 133, 160})"

definition numeric_strip :: "string \<Rightarrow> string" where
  "numeric_strip s = rev (dropWhile numeric_space (rev (dropWhile numeric_space s)))"

text \<open>\<open>int(value)\<close> succeeds: blanks around an optional sign and at least one digit.\<close>

definition int_accepts :: "string \<Rightarrow> bool" where
  "int_accepts s =
     (let d = after_sign (numeric_strip s) in d \<noteq> [] \<and> list_all is_digit d)"

definition lower :: "char \<Rightarrow> char" where
  "lower c =
     (let n = (of_char c :: nat) in if 65 \<le> n \<and> n \<le> 90 then char_of (n + 32) else c)"

text \<open>The exponent of a float literal, or nothing: \<open>e\<close> or \<open>E\<close>, an optional sign, digits.\<close>

definition exponent_ok :: "string \<Rightarrow> bool" where
  "exponent_ok r =
     (case r of
        [] \<Rightarrow> True
      | c # cs \<Rightarrow>
          (c = CHR ''e'' \<or> c = CHR ''E'')
          \<and> (let d = after_sign cs in d \<noteq> [] \<and> list_all is_digit d))"

text \<open>
  \<open>float(value)\<close> succeeds: blanks around an optional sign and then \<open>inf\<close>, \<open>infinity\<close> or
  \<open>nan\<close> in any case, or digits with an optional point and an optional exponent, with a
  digit before or after the point.
\<close>

definition float_accepts :: "string \<Rightarrow> bool" where
  "float_accepts s =
     (let u = after_sign (numeric_strip s);
          int_part = takeWhile is_digit u;
          r1 = dropWhile is_digit u;
          frac_part = (case r1 of
                         [] \<Rightarrow> []
                       | c # cs \<Rightarrow> if c = CHR ''.'' then takeWhile is_digit cs else []);
          r2 = (case r1 of
                  [] \<Rightarrow> []
                | c # cs \<Rightarrow> if c = CHR ''.'' then dropWhile is_digit cs else r1)
      in map lower u \<in> {''inf'', ''infinity'', ''nan''}
         \<or> ((int_part \<noteq> [] \<or> frac_part \<noteq> []) \<and> exponent_ok r2))"

definition numericise :: "string \<Rightarrow> pyval" where
  "numericise v =
     (if CHR ''_'' \<in> set v then PyStr v
      else if int_accepts v then PyInt v
      else if float_accepts v then PyFloat v
      else PyStr v)"

text \<open>
  \<open>worksheet.get_all_records()\<close>: one dictionary per row under the header row, keyed by
  the header cells, with the values numericised; a row shorter than the header is filled
  with empty cells. A dictionary is kept as the list of its key-value pairs in header
  order.
\<close>

definition get_all_records :: "string list list \<Rightarrow> (string \<times> pyval) list list" where
  "get_all_records ws =
     (case ws of
        [] \<Rightarrow> []
      | keys # rows \<Rightarrow>
          map (\<lambda>row. zip keys (map numericise (row @ replicate (length keys - length row) [])))
            rows)"

text \<open>\<open>record.get(key, default)\<close>; of two equal keys the later one counts, as in \<open>dict\<close>.\<close>

definition record_get :: "(string \<times> pyval) list \<Rightarrow> string \<Rightarrow> pyval \<Rightarrow> pyval" where
  "record_get record key dflt =
     (case map_of (rev record) key of Some v \<Rightarrow> v | None \<Rightarrow> dflt)"

text \<open>
  The loop \<open>for record in records\<close> of both add functions: it returns at the first record
  whose name, trimmed, is the trimmed name looked for; \<open>.strip()\<close> on a number raises
  \<open>AttributeError\<close>, which ends the loop as well (the texts are given without their
  quotation marks).
\<close>

datatype lookup = Found | Missing | Raised string

fun find_name :: "string \<Rightarrow> string \<Rightarrow> (string \<times> pyval) list list \<Rightarrow> lookup" where
  "find_name key name [] = Missing"
| "find_name key name (record # records) =
     (case record_get record key (PyStr []) of
        PyStr v \<Rightarrow> if strip v = strip name then Found else find_name key name records
      | PyInt v \<Rightarrow> Raised ''int object has no attribute strip''
      | PyFloat v \<Rightarrow> Raised ''float object has no attribute strip'')"

text \<open>
  What one call of \<open>add_store_to_sheet\<close> or \<open>add_employee_to_sheet\<close> meets: the text of
  the exception raised by reading the records and by appending the row, if any.
\<close>

record catalog_env =
  read_exn :: "string option"
  append_exn :: "string option"

definition add_store_to_sheet :: "handler \<Rightarrow> catalog_env \<Rightarrow> string \<Rightarrow> bool \<times> handler" where
  "add_store_to_sheet h ce store_name =
     (case store_worksheet h of
        None \<Rightarrow> (False, h)
      | Some ws \<Rightarrow>
          (case read_exn ce of
             Some e \<Rightarrow> (False, say (Error (''Error adding store: '' @ e)) h)
           | None \<Rightarrow>
               (case find_name ''Store_Name'' store_name (get_all_records ws) of
                  Found \<Rightarrow> (True, h)
                | Raised e \<Rightarrow> (False, say (Error (''Error adding store: '' @ e)) h)
                | Missing \<Rightarrow>
                    (case append_exn ce of
                       Some e \<Rightarrow> (False, say (Error (''Error adding store: '' @ e)) h)
                     | None \<Rightarrow>
                         (True, h\<lparr>store_worksheet := Some (ws @ [[strip store_name]])\<rparr>)))))"

definition add_employee_to_sheet :: "handler \<Rightarrow> catalog_env \<Rightarrow> string \<Rightarrow> bool \<times> handler" where
  "add_employee_to_sheet h ce employee_name =
     (case employee_worksheet h of
        None \<Rightarrow> (False, h)
      | Some ws \<Rightarrow>
          (case read_exn ce of
             Some e \<Rightarrow> (False, say (Error (''Error adding employee: '' @ e)) h)
           | None \<Rightarrow>
               (case find_name ''Employee_Name'' employee_name (get_all_records ws) of
                  Found \<Rightarrow> (True, h)
                | Raised e \<Rightarrow> (False, say (Error (''Error adding employee: '' @ e)) h)
                | Missing \<Rightarrow>
                    (case append_exn ce of
                       Some e \<Rightarrow> (False, say (Error (''Error adding employee: '' @ e)) h)
                     | None \<Rightarrow>
                         (True,
                          h\<lparr>employee_worksheet := Some (ws @ [[strip employee_name]])\<rparr>)))))"

text \<open>
  The names a catalog holds, for stating how often a name occurs: the trimmed text of the
  name column of every record.
\<close>

definition text_of :: "pyval \<Rightarrow> string" where
  "text_of v = (case v of PyStr s \<Rightarrow> s | PyInt s \<Rightarrow> s | PyFloat s \<Rightarrow> s)"

definition catalog_names :: "string \<Rightarrow> string list list \<Rightarrow> string list" where
  "catalog_names key ws =
     map (\<lambda>record. strip (text_of (record_get record key (PyStr [])))) (get_all_records ws)"

section \<open>Saving a row\<close>

text \<open>The dictionary \<open>data\<close> that \<open>main\<close> builds; the URL entries may be \<open>None\<close>.\<close>

record data =
  d_store_name :: string
  d_employee_name :: string
  d_date :: string
  d_education_photo_url :: cell
  d_poster_photo_url :: cell
  d_participation_competition :: string
  d_display_competition_photo_url :: cell
  d_non_participation_reason :: string
  d_timestamp :: string
  d_status :: string

text \<open>\<open>row_data\<close> of \<open>save_data\<close>, in the column order of the main sheet.\<close>

definition row_data :: "data \<Rightarrow> cell list" where
  "row_data d =
     [Some (d_store_name d), Some (d_employee_name d), Some (d_date d),
      d_education_photo_url d, d_poster_photo_url d, Some (d_participation_competition d),
      d_display_competition_photo_url d, Some (d_non_participation_reason d),
      Some (d_timestamp d), Some (d_status d)]"

text \<open>\<open>save_data\<close>; its second argument is the text of the exception \<open>append_row\<close> raises, if any.\<close>

definition save_data :: "handler \<Rightarrow> string option \<Rightarrow> data \<Rightarrow> bool \<times> handler" where
  "save_data h exn d =
     (case main_worksheet h of
        None \<Rightarrow> (False, say (Error ''Main spreadsheet not connected'') h)
      | Some ws \<Rightarrow>
          (case exn of
             Some e \<Rightarrow> (False, say (Error (''Data save failed: '' @ e)) h)
           | None \<Rightarrow> (True, h\<lparr>main_worksheet := Some (ws @ [row_data d])\<rparr>)))"

text \<open>The columns of a saved row that the record invariant speaks of.\<close>

definition nonempty_cell :: "cell \<Rightarrow> bool" where
  "nonempty_cell c = (case c of None \<Rightarrow> False | Some s \<Rightarrow> s \<noteq> [])"

definition participation_of :: "cell list \<Rightarrow> cell" where
  "participation_of row = row ! 5"

definition display_url_of :: "cell list \<Rightarrow> cell" where
  "display_url_of row = row ! 6"

definition reason_of :: "cell list \<Rightarrow> cell" where
  "reason_of row = row ! 7"

section \<open>The submit branch of main\<close>

text \<open>
  The radio button offers exactly three options. An uploaded file is what \<open>Image.open\<close>
  makes of it: the image, or the text of the exception raised.
\<close>

datatype participation = Select | Yes | No

fun participation_str :: "participation \<Rightarrow> string" where
  "participation_str Select = ''Select...''"
| "participation_str Yes = ''Yes''"
| "participation_str No = ''No''"

type_synonym uploaded_file = "string + image"

text \<open>The widget values of the form when the submit button is pressed.\<close>

record form =
  store_selection :: string
  new_store :: string
  employee_selection :: string
  new_employee :: string
  entry_date :: datetime
  education_photo :: "uploaded_file option"
  poster_photo :: "uploaded_file option"
  participation_select :: participation
  display_photo :: "uploaded_file option"
  reason_input :: string

text \<open>The variables \<open>main\<close> derives from the widgets before the submit block.\<close>

definition store_name :: "form \<Rightarrow> string" where
  "store_name f =
     (if store_selection f = ''+ New Store'' then new_store f
      else if store_selection f \<noteq> [] \<and> store_selection f \<noteq> ''Select Store...''
        then store_selection f
      else [])"

definition employee_name :: "form \<Rightarrow> string" where
  "employee_name f =
     (if employee_selection f = ''+ New Employee'' then new_employee f
      else if employee_selection f \<noteq> [] \<and> employee_selection f \<noteq> ''Select Employee...''
        then employee_selection f
      else [])"

definition display_competition_photo :: "form \<Rightarrow> uploaded_file option" where
  "display_competition_photo f =
     (if participation_select f = Yes then display_photo f else None)"

definition non_participation_reason :: "form \<Rightarrow> string" where
  "non_participation_reason f =
     (if participation_select f = No then reason_input f else [])"

text \<open>The validation block: every test is made and its message appended.\<close>

definition validate :: "form \<Rightarrow> string list" where
  "validate f =
     (if strip (store_name f) = [] then [''Store name is required''] else [])
     @ (if strip (employee_name f) = [] then [''Employee name is required''] else [])
     @ (if education_photo f = None then [''Education photo is required''] else [])
     @ (if poster_photo f = None then [''Poster photo is required''] else [])
     @ (if participation_select f = Select then [''Please select participation status''] else [])
     @ (if participation_select f = Yes \<and> display_competition_photo f = None
          then [''Display competition photo is required when participating''] else [])
     @ (if participation_select f = No \<and> strip (non_participation_reason f) = []
          then [''Reason is required when not participating''] else [])"

text \<open>What the submit branch meets outside the program, call by call.\<close>

record env =
  store_env :: catalog_env
  employee_env :: catalog_env
  education_env :: upload_env
  poster_env :: upload_env
  display_env :: upload_env
  save_exn :: "string option"
  submit_now :: datetime

text \<open>Python's truth value of an optional string, as in \<open>if education_url and poster_url\<close>.\<close>

definition truthy :: "string option \<Rightarrow> bool" where
  "truthy u = (case u of None \<Rightarrow> False | Some s \<Rightarrow> s \<noteq> [])"

definition processing_error :: "string \<Rightarrow> handler \<Rightarrow> handler" where
  "processing_error e h = say (Error (''Error processing submission: '' @ e)) h"

text \<open>
  The dictionary built under \<open>if education_url and poster_url\<close>, and the rest of the
  submit branch from that test on: the row is saved, or the upload failure is reported.
\<close>

definition build_data :: "env \<Rightarrow> form \<Rightarrow> cell \<Rightarrow> cell \<Rightarrow> cell \<Rightarrow> data" where
  "build_data ev f education_url poster_url display_url =
     \<lparr>d_store_name = strip (store_name f),
      d_employee_name = strip (employee_name f),
      d_date = strftime_date (entry_date f),
      d_education_photo_url = education_url,
      d_poster_photo_url = poster_url,
      d_participation_competition = participation_str (participation_select f),
      d_display_competition_photo_url =
        (if participation_select f = Yes then display_url else Some []),
      d_non_participation_reason =
        (if participation_select f = No then non_participation_reason f else []),
      d_timestamp = strftime_stamp (submit_now ev),
      d_status = ''Submitted''\<rparr>"

definition record_phase :: "handler \<Rightarrow> env \<Rightarrow> form \<Rightarrow> cell \<Rightarrow> cell \<Rightarrow> cell \<Rightarrow> handler" where
  "record_phase h ev f education_url poster_url display_url =
     (if truthy education_url \<and> truthy poster_url
        then (case save_data h (save_exn ev)
                     (build_data ev f education_url poster_url display_url) of
                (True, h1) \<Rightarrow>
                  if participation_select f = Yes
                    then say (SuccessBox ''Display Competition Entry Submitted!''
                               (''Entry saved with display competition photo for ''
                                  @ store_name f @ ''.'')) h1
                  else say (SuccessBox ''Entry Submitted Successfully!''
                             (''Entry saved for '' @ store_name f
                                @ '' (not participating in competition).'')) h1
              | (False, h1) \<Rightarrow> say (Error ''Failed to save data to spreadsheet'') h1)
      else say (Error ''Failed to upload images'') h)"

text \<open>
  The three uploads, in the order of the source: both required files are opened first,
  then uploaded; the display photo is opened and uploaded only when participating.
  An exception of \<open>Image.open\<close> ends the submission in the handler of \<open>main\<close>.
\<close>

definition upload_phase :: "handler \<Rightarrow> env \<Rightarrow> form \<Rightarrow> handler" where
  "upload_phase h ev f =
     (case education_photo f of
        None \<Rightarrow> processing_error ''cannot open None'' h
      | Some (Inl e) \<Rightarrow> processing_error e h
      | Some (Inr education_img) \<Rightarrow>
          (case poster_photo f of
             None \<Rightarrow> processing_error ''cannot open None'' h
           | Some (Inl e) \<Rightarrow> processing_error e h
           | Some (Inr poster_img) \<Rightarrow>
               (let (education_url, h1) =
                      upload_image h (education_env ev) education_img (store_name f)
                        (employee_name f) ''education'';
                    (poster_url, h2) =
                      upload_image h1 (poster_env ev) poster_img (store_name f)
                        (employee_name f) ''poster''
                in case (if participation_select f = Yes then display_competition_photo f
                         else None) of
                     None \<Rightarrow> record_phase h2 ev f education_url poster_url (Some [])
                   | Some (Inl e) \<Rightarrow> processing_error e h2
                   | Some (Inr display_img) \<Rightarrow>
                       (let (display_url, h3) =
                              upload_image h2 (display_env ev) display_img (store_name f)
                                (employee_name f) ''display_competition''
                        in record_phase h3 ev f education_url poster_url display_url))))"

text \<open>
  The block under \<open>if submitted\<close>: validation, the catalog additions (after a failed one
  \<open>st.stop()\<close> ends the run), then the uploads and the row.
\<close>

definition submit :: "handler \<Rightarrow> env \<Rightarrow> form \<Rightarrow> handler" where
  "submit h ev f =
     (let errors = validate f
      in if errors \<noteq> [] then say (ErrorBox errors) h
         else
           (let (ok1, h1) =
                  (if store_selection f = ''+ New Store''
                     then add_store_to_sheet h (store_env ev) (store_name f)
                   else (True, h))
            in if \<not> ok1 then say (Error ''Failed to add store'') h1
               else
                 (let (ok2, h2) =
                        (if employee_selection f = ''+ New Employee''
                           then add_employee_to_sheet h1 (employee_env ev) (employee_name f)
                         else (True, h1))
                  in if \<not> ok2 then say (Error ''Failed to add employee'') h2
                     else upload_phase h2 ev f)))"

section \<open>Example inputs\<close>

text \<open>A connected handler with one store, one employee and an empty bucket.\<close>

definition example_handler :: handler where
  "example_handler =
     \<lparr>store_worksheet = Some [[''Store_Name''], [''Main Store'']],
      employee_worksheet = Some [[''Employee_Name''], [''Jane Doe'']],
      main_worksheet = Some [],
      bucket = Some \<lparr>bucket_name = ''photos'', objects = Map.empty\<rparr>,
      shown = []\<rparr>"

definition example_now :: datetime where
  "example_now = \<lparr>year = 2024, month = 3, day = 9, hour = 7, minute = 5, second = 0\<rparr>"

text \<open>An upload that meets no exception, one whose write fails, one that cannot be made public.\<close>

definition upload_fine :: upload_env where
  "upload_fine =
     \<lparr>now_date = example_now, now_time = example_now, uuid4 = 34784419729695628996634915879540746489,
      process_exn = None, upload_exn = None, public_exn = None\<rparr>"

definition upload_broken :: upload_env where
  "upload_broken = upload_fine\<lparr>upload_exn := Some ''503''\<rparr>"

definition upload_private :: upload_env where
  "upload_private = upload_fine\<lparr>public_exn := Some ''403''\<rparr>"

definition example_image :: image where
  "example_image = \<lparr>width = 4000, height = 3000, mode = ''RGB'', orientation = 1\<rparr>"

text \<open>A very wide image, and a small greyscale image with an alpha band.\<close>

definition wide_image :: image where
  "wide_image = \<lparr>width = 4000, height = 1, mode = ''RGB'', orientation = 1\<rparr>"

definition la_image :: image where
  "la_image = \<lparr>width = 10, height = 10, mode = ''LA'', orientation = 1\<rparr>"

definition catalog_fine :: catalog_env where
  "catalog_fine = \<lparr>read_exn = None, append_exn = None\<rparr>"

definition example_env :: env where
  "example_env =
     \<lparr>store_env = catalog_fine,
      employee_env = catalog_fine,
      education_env = upload_fine, poster_env = upload_fine, display_env = upload_fine,
      save_exn = None, submit_now = example_now\<rparr>"

text \<open>A complete form of a participating store, with all three photos.\<close>

definition example_form :: form where
  "example_form =
     \<lparr>store_selection = ''Main Store'', new_store = [],
      employee_selection = ''Jane Doe'', new_employee = [],
      entry_date = example_now,
      education_photo = Some (Inr example_image),
      poster_photo = Some (Inr example_image),
      participation_select = Yes,
      display_photo = Some (Inr example_image),
      reason_input = []\<rparr>"

section \<open>Properties of the path sanitization\<close>

lemma isspace_space: "isspace CHR '' ''"
  by (simp add: isspace_def)

lemma not_isspace_hyphen: "\<not> isspace CHR ''-''"
  by (simp add: isspace_def)

lemma not_isspace_underscore: "\<not> isspace CHR ''_''"
  by (simp add: isspace_def)

lemma isalnum_not_isspace: "isalnum c \<Longrightarrow> \<not> isspace c"
  by (auto simp: isalnum_def isspace_def Let_def)

lemma keep_char_isspace: "keep_char c \<Longrightarrow> isspace c \<longleftrightarrow> c = CHR '' ''"
  using isalnum_not_isspace isspace_space not_isspace_hyphen not_isspace_underscore
  by (auto simp: keep_char_def)

lemma set_strip_subset: "set (strip s) \<subseteq> set s"
proof -
  have "set (strip s) = set (dropWhile isspace (rev (dropWhile isspace s)))"
    by (simp add: strip_def)
  also have "\<dots> \<subseteq> set (rev (dropWhile isspace s))"
    by (rule set_dropWhileD [THEN subsetI])
  also have "\<dots> \<subseteq> set s"
    using set_dropWhileD by fastforce
  finally show ?thesis .
qed

lemma strip_no_space: "\<forall>c \<in> set s. \<not> isspace c \<Longrightarrow> strip s = s"
proof -
  assume a: "\<forall>c \<in> set s. \<not> isspace c"
  then have "dropWhile isspace s = s"
    by (cases s) auto
  moreover from a have "dropWhile isspace (rev s) = rev s"
    by (cases "rev s") (auto simp: in_set_conv_decomp)
  ultimately show ?thesis by (simp add: strip_def)
qed

lemma clean_name_chars:
  "c \<in> set (clean_name name) \<Longrightarrow> keep_char c \<and> c \<noteq> CHR '' ''"
proof -
  assume "c \<in> set (clean_name name)"
  then obtain d where d: "d \<in> set (strip (filter keep_char name))"
    and c: "c = (if d = CHR '' '' then CHR ''_'' else d)"
    by (auto simp: clean_name_def replace_space_def)
  from d set_strip_subset have "d \<in> set (filter keep_char name)" by blast
  then have "keep_char d" by simp
  with c show ?thesis by (auto simp: keep_char_def)
qed

text \<open>
  C9: the sanitization of store and employee names is idempotent: cleaning a cleaned
  name gives the same name.
\<close>

theorem clean_name_idempotent: "clean_name (clean_name name) = clean_name name"
proof -
  let ?t = "clean_name name"
  have keep: "\<forall>c \<in> set ?t. keep_char c" and nosp: "\<forall>c \<in> set ?t. c \<noteq> CHR '' ''"
    using clean_name_chars by blast+
  have f: "filter keep_char ?t = ?t"
    using keep by (simp add: filter_id_conv)
  have "\<forall>c \<in> set ?t. \<not> isspace c"
    using keep nosp keep_char_isspace by blast
  then have s: "strip ?t = ?t" by (rule strip_no_space)
  have r: "replace_space ?t = ?t"
    unfolding replace_space_def using nosp by (simp add: map_idI)
  have "clean_name ?t = replace_space (strip (filter keep_char ?t))"
    by (simp add: clean_name_def)
  with f s r show ?thesis by simp
qed

section \<open>Properties of the image normalization\<close>

lemma new_size_wide:
  assumes "h < w"
  shows "fst (new_size w h) = 1920" and "snd (new_size w h) * w \<le> 1920 * h"
    and "1920 * h < (snd (new_size w h) + 1) * w" and "snd (new_size w h) < 1920"
proof -
  have w0: "0 < w" using assms by simp
  have b: "1920 * h < ((1920 * h) div w + 1) * w"
    using w0 by (metis Suc_eq_plus1 dividend_less_div_times mult.commute mult_Suc)
  have c: "(1920 * h) div w < 1920"
    using assms w0 by (simp add: less_mult_imp_div_less)
  show "fst (new_size w h) = 1920" using assms by (simp add: new_size_def)
  show "snd (new_size w h) * w \<le> 1920 * h" using assms by (simp add: new_size_def)
  show "1920 * h < (snd (new_size w h) + 1) * w" using assms b by (simp add: new_size_def)
  show "snd (new_size w h) < 1920" using assms c by (simp add: new_size_def)
qed

lemma new_size_tall:
  assumes "w \<le> h" and "0 < h"
  shows "snd (new_size w h) = 1920" and "fst (new_size w h) * h \<le> 1920 * w"
    and "1920 * w < (fst (new_size w h) + 1) * h" and "fst (new_size w h) \<le> 1920"
proof -
  have b: "1920 * w < ((1920 * w) div h + 1) * h"
    using assms(2) by (metis Suc_eq_plus1 dividend_less_div_times mult.commute mult_Suc)
  have "1920 * w \<le> 1920 * h" using assms(1) by simp
  then have c: "(1920 * w) div h \<le> 1920"
    using assms(2) by (metis div_le_mono nonzero_mult_div_cancel_right less_numeral_extra(3))
  show "snd (new_size w h) = 1920" using assms by (simp add: new_size_def)
  show "fst (new_size w h) * h \<le> 1920 * w" using assms by (simp add: new_size_def)
  show "1920 * w < (fst (new_size w h) + 1) * h" using assms b by (simp add: new_size_def)
  show "fst (new_size w h) \<le> 1920" using assms c by (simp add: new_size_def)
qed

text \<open>When the image steps give an image, and which one.\<close>

lemma normalize_small:
  assumes "width (exif_transpose img) \<le> 1920" and "height (exif_transpose img) \<le> 1920"
  shows "\<exists>out. normalize img = Inr out \<and> width out = width (exif_transpose img)
           \<and> height out = height (exif_transpose img)"
  using assms by (simp add: normalize_def Let_def convert_rgb_def)

lemma normalize_large:
  assumes "width (exif_transpose img) > 1920 \<or> height (exif_transpose img) > 1920"
  shows "normalize img =
     resize (if mode (exif_transpose img) \<in> {''RGBA'', ''P''}
               then convert_rgb (exif_transpose img) else exif_transpose img)
       (new_size (width (exif_transpose img)) (height (exif_transpose img)))"
  using assms by (auto simp: normalize_def Let_def convert_rgb_def)

lemma resize_Inr:
  "resize img sz = Inr out \<longleftrightarrow>
     1 \<le> fst sz \<and> 1 \<le> snd sz \<and> out = img\<lparr>width := fst sz, height := snd sz\<rparr>"
  by (auto simp: resize_def)

lemma normalize_returns_iff:
  "(\<exists>out. normalize img = Inr out) \<longleftrightarrow>
     (let w = width (exif_transpose img); h = height (exif_transpose img)
      in (w \<le> 1920 \<and> h \<le> 1920) \<or> (h < w \<and> w \<le> 1920 * h) \<or> (w \<le> h \<and> 1920 < h \<and> h \<le> 1920 * w))"
proof (cases "width (exif_transpose img) > 1920 \<or> height (exif_transpose img) > 1920")
  case False
  then have s: "width (exif_transpose img) \<le> 1920" "height (exif_transpose img) \<le> 1920"
    by simp_all
  from normalize_small [OF s] s show ?thesis by (auto simp: Let_def)
next
  case True
  let ?w = "width (exif_transpose img)" and ?h = "height (exif_transpose img)"
  have "(\<exists>out. normalize img = Inr out)
      \<longleftrightarrow> 1 \<le> fst (new_size ?w ?h) \<and> 1 \<le> snd (new_size ?w ?h)"
    unfolding normalize_large [OF True] resize_Inr by simp
  also have "\<dots> \<longleftrightarrow> (?h < ?w \<and> ?w \<le> 1920 * ?h) \<or> (?w \<le> ?h \<and> 1920 < ?h \<and> ?h \<le> 1920 * ?w)"
  proof (cases "?h < ?w")
    case wide: True
    then have "1 \<le> (1920 * ?h) div ?w \<longleftrightarrow> ?w \<le> 1920 * ?h"
      by (simp add: Suc_le_eq div_greater_zero_iff)
    with wide show ?thesis by (simp add: new_size_def)
  next
    case tall: False
    with True have big: "1920 < ?h" by linarith
    then have "1 \<le> (1920 * ?w) div ?h \<longleftrightarrow> ?h \<le> 1920 * ?w"
      by (simp add: Suc_le_eq div_greater_zero_iff)
    with tall big show ?thesis by (simp add: new_size_def)
  qed
  finally show ?thesis using True by (auto simp: Let_def)
qed

text \<open>
  Whenever the image steps give an image: with the size taken after the orientation step,
  an image of at most 1920 pixels on both sides keeps its size; an image with a side above
  1920 comes out with its larger side equal to 1920 and its other side the exact scaled
  length rounded down, hence less than one pixel away from the original aspect ratio.
\<close>

lemma normalize_dimensions:
  assumes out: "normalize img = Inr out"
  shows "let up = exif_transpose img; w = width up; h = height up
   in (w \<le> 1920 \<and> h \<le> 1920 \<longrightarrow> width out = w \<and> height out = h)
      \<and> (w > 1920 \<or> h > 1920 \<longrightarrow>
           max (width out) (height out) = 1920
           \<and> (if w > h
                then width out = 1920 \<and> height out * w \<le> 1920 * h
                     \<and> 1920 * h < (height out + 1) * w
              else height out = 1920 \<and> width out * h \<le> 1920 * w
                   \<and> 1920 * w < (width out + 1) * h))"
proof -
  let ?w = "width (exif_transpose img)" and ?h = "height (exif_transpose img)"
  have small: "width out = ?w \<and> height out = ?h" if "?w \<le> 1920" "?h \<le> 1920"
    using normalize_small [OF that] out by auto
  have large: "max (width out) (height out) = 1920
           \<and> (if ?w > ?h
                then width out = 1920 \<and> height out * ?w \<le> 1920 * ?h
                     \<and> 1920 * ?h < (height out + 1) * ?w
              else height out = 1920 \<and> width out * ?h \<le> 1920 * ?w
                   \<and> 1920 * ?w < (width out + 1) * ?h)"
    if big: "?w > 1920 \<or> ?h > 1920"
  proof -
    from out normalize_large [OF big]
    have sz: "width out = fst (new_size ?w ?h)" "height out = snd (new_size ?w ?h)"
      by (auto simp: resize_Inr)
    show ?thesis
    proof (cases "?w > ?h")
      case True
      from new_size_wide [OF True] True show ?thesis
        by (simp add: sz max_def)
    next
      case False
      then have le: "?w \<le> ?h" by simp
      with big have pos: "0 < ?h" by linarith
      from new_size_tall [OF le pos] False show ?thesis
        by (simp add: sz max_def)
    qed
  qed
  show ?thesis unfolding Let_def using small large by blast
qed

lemma normalize_mode:
  assumes "normalize img = Inr out"
  shows "mode out = (if mode img \<in> {''RGBA'', ''P''} then ''RGB'' else mode img)"
  using assms
  by (auto simp: normalize_def Let_def convert_rgb_def resize_def exif_transpose_def
      split: if_splits)

text \<open>
  C3 at a concrete image: a file of 4000 by 1 pixels has a side above 1920, and the
  scaled height \<open>int((1920 * 1) / 4000)\<close> is 0. The resize to 1920 by 0 raises, so there is
  no output with a larger side of 1920: the upload fails and returns no URL.
\<close>

theorem wide_image_has_no_output:
  "width (exif_transpose wide_image) = 4000
   \<and> height (exif_transpose wide_image) = 1
   \<and> new_size 4000 1 = (1920, 0)
   \<and> normalize wide_image = Inl ''height and width must be > 0''
   \<and> fst (upload_image example_handler upload_fine wide_image ''Main Store'' ''Jane Doe''
            ''education'') = None
   \<and> shown (snd (upload_image example_handler upload_fine wide_image ''Main Store''
            ''Jane Doe'' ''education''))
       = [Error ''Image upload failed: height and width must be > 0'']"
proof -
  have n: "normalize wide_image = Inl ''height and width must be > 0''"
    by (simp add: normalize_def Let_def wide_image_def exif_transpose_def new_size_def
        resize_def)
  then have j: "jpeg_of wide_image = Inl ''height and width must be > 0''"
    by (simp add: jpeg_of_def)
  have d: "width (exif_transpose wide_image) = 4000" "height (exif_transpose wide_image) = 1"
    "new_size 4000 1 = (1920, 0)"
    by (simp_all add: wide_image_def exif_transpose_def new_size_def)
  show ?thesis
    using n d
    by (simp add: upload_image_def Let_def j example_handler_def upload_fine_def say_def)
qed

text \<open>
  C8 at a concrete image: a greyscale image with an alpha band has mode LA, which carries
  alpha. The mode test of the source lists RGBA and P only, so the image reaches the
  encoder in mode LA; the JPEG writer refuses that mode, and the upload fails and returns
  no URL.
\<close>

theorem la_image_is_not_flattened:
  "spec_alpha_or_palette (mode la_image)
   \<and> normalize la_image = Inr la_image
   \<and> mode la_image = ''LA''
   \<and> save_jpeg la_image = Inl ''cannot write mode LA as JPEG''
   \<and> fst (upload_image example_handler upload_fine la_image ''Main Store'' ''Jane Doe''
            ''education'') = None
   \<and> shown (snd (upload_image example_handler upload_fine la_image ''Main Store''
            ''Jane Doe'' ''education''))
       = [Error ''Image upload failed: cannot write mode LA as JPEG'']"
proof -
  have n: "normalize la_image = Inr la_image"
    by (simp add: normalize_def Let_def la_image_def exif_transpose_def)
  have s: "save_jpeg la_image = Inl ''cannot write mode LA as JPEG''"
    by (simp add: save_jpeg_def la_image_def)
  have j: "jpeg_of la_image = Inl ''cannot write mode LA as JPEG''"
    by (simp add: jpeg_of_def n s)
  have m: "mode la_image = ''LA''" "spec_alpha_or_palette (mode la_image)"
    by (simp_all add: la_image_def spec_alpha_or_palette_def)
  show ?thesis
    using n s m
    by (simp add: upload_image_def Let_def j example_handler_def upload_fine_def say_def)
qed

section \<open>Properties of the storage upload\<close>

lemma length_digits: "length (digits b k n) = k"
  by (induction k arbitrary: n) simp_all

lemma digit_char_hex: "is_hex (digit_char n)"
proof -
  have "n mod 16 < length ''0123456789abcdef''" by simp
  then have "''0123456789abcdef'' ! (n mod 16) \<in> set ''0123456789abcdef''"
    by (rule nth_mem)
  then show ?thesis by (simp only: is_hex_def digit_char_def)
qed

lemma digits_hex: "c \<in> set (digits b k n) \<Longrightarrow> is_hex c"
  by (induction k arbitrary: n) (auto simp: digit_char_hex)

lemma unique_id_take: "take 8 (uuid_str u) = take 8 (digits 16 32 u)"
  by (simp add: uuid_str_def Let_def length_digits)

lemma unique_id_length: "length (take 8 (uuid_str u)) = 8"
  by (simp add: unique_id_take length_digits)

lemma unique_id_hex: "c \<in> set (take 8 (uuid_str u)) \<Longrightarrow> is_hex c"
  unfolding unique_id_take using digits_hex in_set_takeD by fast

lemma length_strftime_date: "length (strftime_date t) = 10"
  by (simp add: strftime_date_def length_digits)

lemma length_strftime_time: "length (strftime_time t) = 6"
  by (simp add: strftime_time_def length_digits)

text \<open>What a call of \<open>upload_image\<close> returns and leaves behind, case by case.\<close>

lemma upload_image_no_bucket:
  "bucket h = None \<Longrightarrow>
   upload_image h ue img store employee img_type =
     (None, say (Error ''Storage bucket not connected'') h)"
  by (simp add: upload_image_def)

lemma upload_image_process_exn:
  "bucket h = Some b \<Longrightarrow> process_exn ue = Some e \<Longrightarrow>
   upload_image h ue img store employee img_type =
     (None, say (Error (''Image upload failed: '' @ e)) h)"
  by (simp add: upload_image_def Let_def)

lemma upload_image_jpeg_exn:
  "bucket h = Some b \<Longrightarrow> process_exn ue = None \<Longrightarrow> jpeg_of img = Inl e \<Longrightarrow>
   upload_image h ue img store employee img_type =
     (None, say (Error (''Image upload failed: '' @ e)) h)"
  by (simp add: upload_image_def Let_def)

lemma upload_image_upload_exn:
  "bucket h = Some b \<Longrightarrow> process_exn ue = None \<Longrightarrow> jpeg_of img = Inr jpg \<Longrightarrow>
   upload_exn ue = Some e \<Longrightarrow>
   upload_image h ue img store employee img_type =
     (None, say (Error (''Image upload failed: '' @ e)) h)"
  by (simp add: upload_image_def Let_def)

lemma upload_image_public:
  "bucket h = Some b \<Longrightarrow> process_exn ue = None \<Longrightarrow> jpeg_of img = Inr jpg \<Longrightarrow>
   upload_exn ue = None \<Longrightarrow> public_exn ue = None \<Longrightarrow>
   upload_image h ue img store employee img_type =
     (Some (public_url (bucket_name b) (object_path ue store employee img_type)),
      say (Success (''Image uploaded: '' @ img_type))
        (h\<lparr>bucket := Some (b\<lparr>objects := (objects b)(object_path ue store employee img_type \<mapsto>
           \<lparr>content = jpg, content_type = ''image/jpeg'', is_public = True\<rparr>)\<rparr>)\<rparr>))"
  by (simp add: upload_image_def Let_def)

lemma upload_image_not_public:
  "bucket h = Some b \<Longrightarrow> process_exn ue = None \<Longrightarrow> jpeg_of img = Inr jpg \<Longrightarrow>
   upload_exn ue = None \<Longrightarrow> public_exn ue = Some e \<Longrightarrow>
   upload_image h ue img store employee img_type =
     (Some (public_url (bucket_name b) (object_path ue store employee img_type)),
      say (Warning (''Image uploaded but could not make public: '' @ e))
        (h\<lparr>bucket := Some (b\<lparr>objects := (objects b)(object_path ue store employee img_type \<mapsto>
           \<lparr>content = jpg, content_type = ''image/jpeg'', is_public = False\<rparr>)\<rparr>)\<rparr>))"
  by (simp add: upload_image_def Let_def)

lemma upload_image_cases:
  obtains (no_bucket) "bucket h = None"
  | (process) b e where "bucket h = Some b" "process_exn ue = Some e"
  | (jpeg) b e where "bucket h = Some b" "process_exn ue = None" "jpeg_of img = Inl e"
  | (upload) b jpg e where "bucket h = Some b" "process_exn ue = None" "jpeg_of img = Inr jpg"
      "upload_exn ue = Some e"
  | (public) b jpg where "bucket h = Some b" "process_exn ue = None" "jpeg_of img = Inr jpg"
      "upload_exn ue = None" "public_exn ue = None"
  | (not_public) b jpg e where "bucket h = Some b" "process_exn ue = None"
      "jpeg_of img = Inr jpg" "upload_exn ue = None" "public_exn ue = Some e"
  by (cases "bucket h"; cases "process_exn ue"; cases "jpeg_of img"; cases "upload_exn ue";
      cases "public_exn ue") auto

lemma jpeg_of_normalize: "jpeg_of img = Inr jpg \<Longrightarrow> normalize img = Inr jpg"
  by (auto simp: jpeg_of_def save_jpeg_def split: sum.splits if_splits)

lemma upload_image_Some:
  assumes "upload_image h ue img store employee img_type = (Some url, h')"
  shows "\<exists>b jpg. bucket h = Some b \<and> process_exn ue = None \<and> jpeg_of img = Inr jpg
    \<and> upload_exn ue = None
    \<and> url = public_url (bucket_name b) (object_path ue store employee img_type)
    \<and> objects_of h' = (objects b)(object_path ue store employee img_type \<mapsto>
         \<lparr>content = jpg, content_type = ''image/jpeg'',
          is_public = (public_exn ue = None)\<rparr>)"
proof (cases rule: upload_image_cases [where h = h and ue = ue and img = img])
  case no_bucket
  with assms show ?thesis by (simp add: upload_image_no_bucket)
next
  case (process b e)
  with assms show ?thesis by (simp add: upload_image_process_exn)
next
  case (jpeg b e)
  with assms show ?thesis by (simp add: upload_image_jpeg_exn)
next
  case (upload b jpg e)
  with assms show ?thesis by (simp add: upload_image_upload_exn)
next
  case (public b jpg)
  with assms show ?thesis
    by (auto simp: upload_image_public objects_of_def say_def)
next
  case (not_public b jpg e)
  with assms show ?thesis
    by (auto simp: upload_image_not_public objects_of_def say_def)
qed

text \<open>
  C4: a call of \<open>upload_image\<close> that returns a URL has stored the JPEG under the path
  \<open>gramedia-display/<store>/<employee>/<YYYY-MM-DD>/<role>/<HHMMSS>_<id>.jpg\<close>, with the
  sanitized names, a date of ten and a time of six characters and an id of eight
  hexadecimal digits, and the URL is the fixed host, the bucket name and that path.
\<close>

theorem upload_path_and_url:
  assumes "upload_image h ue img store employee role = (Some url, h')"
  shows "\<exists>b unique_id path.
           bucket h = Some b
           \<and> unique_id = take 8 (uuid_str (uuid4 ue))
           \<and> length unique_id = 8 \<and> (\<forall>c \<in> set unique_id. is_hex c)
           \<and> length (strftime_date (now_date ue)) = 10
           \<and> length (strftime_time (now_time ue)) = 6
           \<and> path = ''gramedia-display/'' @ clean_name store @ ''/'' @ clean_name employee
                @ ''/'' @ strftime_date (now_date ue) @ ''/'' @ role @ ''/''
                @ strftime_time (now_time ue) @ ''_'' @ unique_id @ ''.jpg''
           \<and> url = ''https://storage.googleapis.com/'' @ bucket_name b @ ''/'' @ path
           \<and> (\<exists>stored. objects_of h' path = Some stored
                 \<and> Inr (content stored) = normalize img
                 \<and> content_type stored = ''image/jpeg'')"
proof -
  from upload_image_Some [OF assms] obtain b jpg where b: "bucket h = Some b"
    and jpg: "jpeg_of img = Inr jpg"
    and url: "url = public_url (bucket_name b) (object_path ue store employee role)"
    and obj: "objects_of h' = (objects b)(object_path ue store employee role \<mapsto>
         \<lparr>content = jpg, content_type = ''image/jpeg'',
          is_public = (public_exn ue = None)\<rparr>)"
    by blast
  let ?id = "take 8 (uuid_str (uuid4 ue))"
  let ?path = "''gramedia-display/'' @ clean_name store @ ''/'' @ clean_name employee
                @ ''/'' @ strftime_date (now_date ue) @ ''/'' @ role @ ''/''
                @ strftime_time (now_time ue) @ ''_'' @ ?id @ ''.jpg''"
  have path: "object_path ue store employee role = ?path"
    by (simp add: object_path_def Let_def)
  have hex: "\<forall>c \<in> set ?id. is_hex c"
    using unique_id_hex by blast
  have u: "url = ''https://storage.googleapis.com/'' @ bucket_name b @ ''/'' @ ?path"
    unfolding url path public_url_def ..
  have st: "\<exists>stored. objects_of h' ?path = Some stored
                 \<and> Inr (content stored) = normalize img
                 \<and> content_type stored = ''image/jpeg''"
    unfolding obj path using jpeg_of_normalize [OF jpg] by simp
  from b hex u st unique_id_length length_strftime_date length_strftime_time
  show ?thesis by blast
qed

text \<open>The example inputs, evaluated.\<close>

lemma digits_numeral:
  "digits b (numeral k) n = digits b (pred_numeral k) (n div b) @ [digit_char (n mod b)]"
  by (simp add: numeral_eq_Suc)

lemma example_unique_id: "take 8 (uuid_str (uuid4 upload_fine)) = ''1a2b3c4d''"
  by (simp add: upload_fine_def uuid_str_def Let_def digits_numeral digit_char_def)

lemma example_clean_names:
  "clean_name ''Main Store'' = ''Main_Store''" "clean_name ''Jane Doe'' = ''Jane_Doe''"
  by code_simp+

lemma example_stamps:
  "strftime_date example_now = ''2024-03-09''"
  "strftime_time example_now = ''070500''"
  "strftime_stamp example_now = ''2024-03-09 07:05:00''"
  by code_simp+

lemma example_object_path:
  "object_path upload_fine ''Main Store'' ''Jane Doe'' role =
     ''gramedia-display/Main_Store/Jane_Doe/2024-03-09/'' @ role @ ''/070500_1a2b3c4d.jpg''"
proof -
  have "now_date upload_fine = example_now" "now_time upload_fine = example_now"
    by (simp_all add: upload_fine_def)
  then show ?thesis
    by (simp add: object_path_def Let_def example_clean_names example_stamps example_unique_id)
qed

lemma example_jpeg:
  "jpeg_of example_image = Inr \<lparr>width = 1920, height = 1440, mode = ''RGB'', orientation = 1\<rparr>"
  by (simp add: jpeg_of_def normalize_def Let_def example_image_def exif_transpose_def
      new_size_def resize_def save_jpeg_def)

lemma example_upload:
  "fst (upload_image example_handler upload_fine example_image ''Main Store'' ''Jane Doe'' role)
     = Some (''https://storage.googleapis.com/photos/gramedia-display/Main_Store/Jane_Doe/2024-03-09/''
              @ role @ ''/070500_1a2b3c4d.jpg'')"
proof -
  have "bucket example_handler = Some \<lparr>bucket_name = ''photos'', objects = Map.empty\<rparr>"
    by (simp add: example_handler_def)
  moreover have "process_exn upload_fine = None" "upload_exn upload_fine = None"
    "public_exn upload_fine = None"
    by (simp_all add: upload_fine_def)
  ultimately show ?thesis
    using example_jpeg
    by (simp add: upload_image_public example_object_path public_url_def)
qed

theorem upload_path_and_url_witness:
  "fst (upload_image example_handler upload_fine example_image ''Main Store'' ''Jane Doe''
          ''education'')
     = Some ''https://storage.googleapis.com/photos/gramedia-display/Main_Store/Jane_Doe/2024-03-09/education/070500_1a2b3c4d.jpg''
   \<and> (\<exists>b. bucket example_handler = Some b
          \<and> (\<forall>c \<in> set (take 8 (uuid_str (uuid4 upload_fine))). is_hex c))"
proof -
  have run: "fst (upload_image example_handler upload_fine example_image ''Main Store''
      ''Jane Doe'' ''education'')
     = Some ''https://storage.googleapis.com/photos/gramedia-display/Main_Store/Jane_Doe/2024-03-09/education/070500_1a2b3c4d.jpg''"
    by (simp add: example_upload)
  then have "upload_image example_handler upload_fine example_image ''Main Store''
      ''Jane Doe'' ''education''
     = (Some ''https://storage.googleapis.com/photos/gramedia-display/Main_Store/Jane_Doe/2024-03-09/education/070500_1a2b3c4d.jpg'',
        snd (upload_image example_handler upload_fine example_image ''Main Store''
          ''Jane Doe'' ''education''))"
    by (simp add: prod_eq_iff)
  from upload_path_and_url [OF this] run show ?thesis by blast
qed

text \<open>
  C7: when the image is encoded, the bytes are stored and only \<open>make_public\<close> raises, \<open>upload_image\<close> still
  returns the public URL, the object is in storage and not public, and the user is shown a
  warning; when the write itself raises, nothing is returned and an error is shown.
\<close>

theorem upload_not_public_is_partial_success:
  assumes "bucket h = Some b" and "process_exn ue = None" and "jpeg_of img = Inr jpg"
    and "upload_exn ue = None" and "public_exn ue = Some e"
  shows "fst (upload_image h ue img store employee role)
           = Some (public_url (bucket_name b) (object_path ue store employee role))
         \<and> shown (snd (upload_image h ue img store employee role))
             = shown h @ [Warning (''Image uploaded but could not make public: '' @ e)]
         \<and> objects_of (snd (upload_image h ue img store employee role))
               (object_path ue store employee role)
             = Some \<lparr>content = jpg, content_type = ''image/jpeg'', is_public = False\<rparr>
         \<and> (\<forall>e'. fst (upload_image h (ue\<lparr>upload_exn := Some e'\<rparr>) img store employee role) = None
                \<and> shown (snd (upload_image h (ue\<lparr>upload_exn := Some e'\<rparr>) img store employee role))
                    = shown h @ [Error (''Image upload failed: '' @ e')])"
proof -
  have a: "upload_image h ue img store employee role =
     (Some (public_url (bucket_name b) (object_path ue store employee role)),
      say (Warning (''Image uploaded but could not make public: '' @ e))
        (h\<lparr>bucket := Some (b\<lparr>objects := (objects b)(object_path ue store employee role \<mapsto>
           \<lparr>content = jpg, content_type = ''image/jpeg'', is_public = False\<rparr>)\<rparr>)\<rparr>))"
    using assms by (rule upload_image_not_public)
  have b: "upload_image h (ue\<lparr>upload_exn := Some e'\<rparr>) img store employee role =
     (None, say (Error (''Image upload failed: '' @ e')) h)" for e'
    using assms(1-3) by (intro upload_image_upload_exn) simp_all
  show ?thesis
    unfolding a b by (simp add: say_def objects_of_def)
qed

theorem upload_not_public_is_partial_success_witness:
  "fst (upload_image example_handler upload_private example_image ''Main Store'' ''Jane Doe''
          ''poster'')
     = Some (public_url ''photos''
          (object_path upload_private ''Main Store'' ''Jane Doe'' ''poster''))
   \<and> shown (snd (upload_image example_handler upload_private example_image ''Main Store''
          ''Jane Doe'' ''poster''))
       = [Warning ''Image uploaded but could not make public: 403'']"
proof -
  have "bucket example_handler = Some \<lparr>bucket_name = ''photos'', objects = Map.empty\<rparr>"
    and "process_exn upload_private = None"
    and "jpeg_of example_image
           = Inr \<lparr>width = 1920, height = 1440, mode = ''RGB'', orientation = 1\<rparr>"
    and "upload_exn upload_private = None"
    and "public_exn upload_private = Some ''403''"
    by (simp_all add: example_handler_def upload_private_def upload_fine_def example_jpeg)
  from upload_not_public_is_partial_success [OF this] show ?thesis
    by (simp add: example_handler_def)
qed

lemma clean_name_nothing_kept:
  "\<forall>c \<in> set name. \<not> keep_char c \<Longrightarrow> clean_name name = []"
proof -
  assume "\<forall>c \<in> set name. \<not> keep_char c"
  then have "filter keep_char name = []"
    by (simp add: filter_empty_conv)
  then show ?thesis
    by (simp add: clean_name_def strip_def replace_space_def)
qed

lemma upload_image_stored:
  assumes "bucket h = Some b" and "process_exn ue = None" and "jpeg_of img = Inr jpg"
    and "upload_exn ue = None"
  shows "fst (upload_image h ue img store employee role)
           = Some (public_url (bucket_name b) (object_path ue store employee role))"
    and "object_path ue store employee role
           \<in> dom (objects_of (snd (upload_image h ue img store employee role)))"
proof -
  show "fst (upload_image h ue img store employee role)
           = Some (public_url (bucket_name b) (object_path ue store employee role))"
    using assms by (cases "public_exn ue") (simp_all add: upload_image_public upload_image_not_public)
  show "object_path ue store employee role
           \<in> dom (objects_of (snd (upload_image h ue img store employee role)))"
    using assms
    by (cases "public_exn ue")
      (simp_all add: upload_image_public upload_image_not_public objects_of_def say_def)
qed

text \<open>
  C10: a store or employee name without any kept character is cleaned to the empty
  string, and \<open>upload_image\<close> does not reject it: the object is written, and the returned
  URL points to a path with an empty segment, two slashes in a row.
\<close>

theorem empty_name_gives_empty_segment:
  assumes "bucket h = Some b" and "process_exn ue = None" and "jpeg_of img = Inr jpg"
    and "upload_exn ue = None"
  shows "((\<forall>c \<in> set store. \<not> keep_char c) \<longrightarrow>
            clean_name store = []
            \<and> object_path ue store employee role
                = ''gramedia-display//'' @ clean_name employee @ ''/''
                    @ strftime_date (now_date ue) @ ''/'' @ role @ ''/''
                    @ strftime_time (now_time ue) @ ''_'' @ take 8 (uuid_str (uuid4 ue))
                    @ ''.jpg'')
         \<and> ((\<forall>c \<in> set employee. \<not> keep_char c) \<longrightarrow>
            clean_name employee = []
            \<and> object_path ue store employee role
                = ''gramedia-display/'' @ clean_name store @ ''//''
                    @ strftime_date (now_date ue) @ ''/'' @ role @ ''/''
                    @ strftime_time (now_time ue) @ ''_'' @ take 8 (uuid_str (uuid4 ue))
                    @ ''.jpg'')
         \<and> fst (upload_image h ue img store employee role)
             = Some (public_url (bucket_name b) (object_path ue store employee role))
         \<and> object_path ue store employee role
             \<in> dom (objects_of (snd (upload_image h ue img store employee role)))"
  using upload_image_stored [OF assms] clean_name_nothing_kept
  by (simp add: object_path_def Let_def)

lemma example_bad_name: "\<forall>c \<in> set ''!!!''. \<not> keep_char c"
  by code_simp

theorem empty_name_gives_empty_segment_witness:
  "list_all (\<lambda>c. \<not> keep_char c) ''!!!''
   \<and> fst (upload_image example_handler upload_fine example_image ''!!!'' ''Jane Doe''
            ''education'')
       = Some ''https://storage.googleapis.com/photos/gramedia-display//Jane_Doe/2024-03-09/education/070500_1a2b3c4d.jpg''"
proof -
  have "bucket example_handler = Some \<lparr>bucket_name = ''photos'', objects = Map.empty\<rparr>"
    and "process_exn upload_fine = None"
    and "jpeg_of example_image
           = Inr \<lparr>width = 1920, height = 1440, mode = ''RGB'', orientation = 1\<rparr>"
    and "upload_exn upload_fine = None"
    by (simp_all add: example_handler_def upload_fine_def example_jpeg)
  from empty_name_gives_empty_segment [OF this, of "''!!!''" "''Jane Doe''" "''education''"]
    example_bad_name
  have "fst (upload_image example_handler upload_fine example_image ''!!!'' ''Jane Doe''
            ''education'')
       = Some (public_url ''photos'' (''gramedia-display//'' @ clean_name ''Jane Doe'' @ ''/''
                    @ strftime_date (now_date upload_fine) @ ''/'' @ ''education'' @ ''/''
                    @ strftime_time (now_time upload_fine) @ ''_''
                    @ take 8 (uuid_str (uuid4 upload_fine)) @ ''.jpg''))"
    by simp
  moreover have "now_date upload_fine = example_now" "now_time upload_fine = example_now"
    by (simp_all add: upload_fine_def)
  ultimately show ?thesis
    using example_bad_name
    by (simp add: list_all_iff public_url_def example_clean_names example_stamps
        example_unique_id)
qed

lemma example_strips: "strip ''Main Store'' = ''Main Store''" "strip ''Jane Doe'' = ''Jane Doe''"
  by code_simp+

section \<open>Properties of the catalogs\<close>

lemma dropWhile_id: "xs = [] \<or> \<not> P (hd xs) \<Longrightarrow> dropWhile P xs = xs"
  by (cases xs) auto

lemma strip_idem: "strip (strip s) = strip s"
proof -
  let ?u = "dropWhile isspace s"
  let ?v = "dropWhile isspace (rev ?u)"
  have t: "strip s = rev ?v" by (simp add: strip_def)
  have v: "dropWhile isspace (rev (rev ?v)) = ?v" by simp
  have front: "dropWhile isspace (rev ?v) = rev ?v"
  proof (cases "rev ?v = []")
    case True
    show ?thesis unfolding True by simp
  next
    case False
    obtain ws where ws: "rev ?u = ws @ ?v"
      by (metis takeWhile_dropWhile_id)
    then have u: "?u = rev ?v @ rev ws"
      by (metis rev_append rev_rev_ident)
    with False have "hd ?u = hd (rev ?v)" by (metis hd_append2)
    moreover from u False have "?u \<noteq> []" by (metis Nil_is_append_conv)
    then have "\<not> isspace (hd ?u)" by (rule hd_dropWhile)
    ultimately show ?thesis by (simp add: dropWhile_id)
  qed
  show ?thesis
    unfolding t unfolding strip_def front v ..
qed

lemma text_of_numericise: "text_of (numericise v) = v"
  by (simp add: numericise_def text_of_def)

lemma get_all_records_snoc:
  "get_all_records (keys # rows @ [row]) =
     get_all_records (keys # rows)
       @ [zip keys (map numericise (row @ replicate (length keys - length row) []))]"
  by (simp add: get_all_records_def)

lemma record_get_first:
  assumes "key \<notin> set ks"
  shows "record_get ((key, v) # zip ks vs) key d = v"
proof -
  have "key \<notin> fst ` set (zip ks vs)"
    using assms by (auto dest: set_zip_leftD)
  then have "map_of (rev (zip ks vs)) key = None"
    by (simp add: map_of_eq_None_iff)
  then show ?thesis
    by (simp add: record_get_def map_add_def)
qed

lemma catalog_names_snoc:
  assumes "key \<notin> set ks"
  shows "catalog_names key ((key # ks) # rows @ [[name]]) =
           catalog_names key ((key # ks) # rows) @ [strip name]"
  by (simp add: catalog_names_def get_all_records_snoc record_get_first [OF assms]
      text_of_numericise)

text \<open>
  The loop over records none of which holds a number in the name column: it finds the
  name exactly when the catalog holds it.
\<close>

lemma find_name_text:
  assumes "\<forall>record \<in> set records. \<exists>v. record_get record key (PyStr []) = PyStr v"
  shows "find_name key name records =
           (if strip name \<in> set (map (\<lambda>record. strip (text_of (record_get record key (PyStr []))))
                                   records)
            then Found else Missing)"
  using assms
proof (induction records)
  case Nil
  show ?case by simp
next
  case (Cons r rs)
  then obtain v where v: "record_get r key (PyStr []) = PyStr v" by auto
  from Cons have "find_name key name rs =
           (if strip name \<in> set (map (\<lambda>record. strip (text_of (record_get record key (PyStr []))))
                                   rs)
            then Found else Missing)"
    by simp
  then show ?case by (auto simp: v text_of_def)
qed

text \<open>A number in the name column before any match ends the loop with the exception.\<close>

lemma find_name_number:
  assumes "record_get record key (PyStr []) = PyInt v"
  shows "find_name key name (record # records) = Raised ''int object has no attribute strip''"
  using assms by simp

lemma add_store_existing:
  assumes "store_worksheet h = Some ws" and "read_exn ce = None"
    and "\<forall>record \<in> set (get_all_records ws).
           \<exists>v. record_get record ''Store_Name'' (PyStr []) = PyStr v"
    and "strip name \<in> set (catalog_names ''Store_Name'' ws)"
  shows "add_store_to_sheet h ce name = (True, h)"
  using assms(1,2,4) find_name_text [OF assms(3), of name]
  by (simp add: add_store_to_sheet_def catalog_names_def)

lemma add_store_new:
  assumes "store_worksheet h = Some ws" and "read_exn ce = None" and "append_exn ce = None"
    and "\<forall>record \<in> set (get_all_records ws).
           \<exists>v. record_get record ''Store_Name'' (PyStr []) = PyStr v"
    and "strip name \<notin> set (catalog_names ''Store_Name'' ws)"
  shows "add_store_to_sheet h ce name = (True, h\<lparr>store_worksheet := Some (ws @ [[strip name]])\<rparr>)"
  using assms(1,2,3,5) find_name_text [OF assms(4), of name]
  by (simp add: add_store_to_sheet_def catalog_names_def)

lemma add_employee_existing:
  assumes "employee_worksheet h = Some ws" and "read_exn ce = None"
    and "\<forall>record \<in> set (get_all_records ws).
           \<exists>v. record_get record ''Employee_Name'' (PyStr []) = PyStr v"
    and "strip name \<in> set (catalog_names ''Employee_Name'' ws)"
  shows "add_employee_to_sheet h ce name = (True, h)"
  using assms(1,2,4) find_name_text [OF assms(3), of name]
  by (simp add: add_employee_to_sheet_def catalog_names_def)

lemma add_employee_new:
  assumes "employee_worksheet h = Some ws" and "read_exn ce = None" and "append_exn ce = None"
    and "\<forall>record \<in> set (get_all_records ws).
           \<exists>v. record_get record ''Employee_Name'' (PyStr []) = PyStr v"
    and "strip name \<notin> set (catalog_names ''Employee_Name'' ws)"
  shows "add_employee_to_sheet h ce name =
           (True, h\<lparr>employee_worksheet := Some (ws @ [[strip name]])\<rparr>)"
  using assms(1,2,3,5) find_name_text [OF assms(4), of name]
  by (simp add: add_employee_to_sheet_def catalog_names_def)

text \<open>
  After the addition of a name that is read back as text, the catalog still holds text
  only, and it holds the trimmed name, once if it was not there before.
\<close>

lemma text_after_snoc:
  assumes "key \<notin> set ks"
    and "\<forall>record \<in> set (get_all_records ((key # ks) # rows)).
           \<exists>v. record_get record key (PyStr []) = PyStr v"
    and "numericise name = PyStr name"
  shows "\<forall>record \<in> set (get_all_records ((key # ks) # rows @ [[name]])).
           \<exists>v. record_get record key (PyStr []) = PyStr v"
  using assms(2,3)
  by (auto simp add: get_all_records_snoc record_get_first [OF assms(1)])

lemma count_after_snoc:
  assumes "key \<notin> set ks" and "strip name \<notin> set (catalog_names key ((key # ks) # rows))"
  shows "count_list (catalog_names key ((key # ks) # rows @ [[strip name]])) (strip name) = 1"
    and "strip name \<in> set (catalog_names key ((key # ks) # rows @ [[strip name]]))"
  using assms by (simp_all add: catalog_names_snoc strip_idem count_list_0_iff)

text \<open>
  Where the name column holds no number and the name is not read back as one, the
  additions are idempotent: adding a name twice in a row succeeds both times, the second
  addition changes nothing, and a catalog that held the trimmed name at most once holds
  it exactly once afterwards.
\<close>

lemma add_store_twice:
  assumes ws: "store_worksheet h = Some ((''Store_Name'' # ks) # rows)"
    and key: "''Store_Name'' \<notin> set ks"
    and env: "read_exn ce = None" "append_exn ce = None" "read_exn ce' = None"
    and cells: "\<forall>record \<in> set (get_all_records ((''Store_Name'' # ks) # rows)).
           \<exists>v. record_get record ''Store_Name'' (PyStr []) = PyStr v"
    and nm: "numericise (strip name) = PyStr (strip name)"
  shows "\<exists>h1 ws1. add_store_to_sheet h ce name = (True, h1)
           \<and> add_store_to_sheet h1 ce' name = (True, h1)
           \<and> store_worksheet h1 = Some ws1
           \<and> (count_list (catalog_names ''Store_Name'' ((''Store_Name'' # ks) # rows))
                 (strip name) \<le> 1
                \<longrightarrow> count_list (catalog_names ''Store_Name'' ws1) (strip name) = 1)"
proof (cases "strip name \<in> set (catalog_names ''Store_Name'' ((''Store_Name'' # ks) # rows))")
  case True
  then have pos: "count_list (catalog_names ''Store_Name'' ((''Store_Name'' # ks) # rows))
      (strip name) \<noteq> 0"
    by (simp add: count_list_0_iff)
  have "add_store_to_sheet h ce name = (True, h)"
    using ws env(1) cells True by (rule add_store_existing)
  moreover have "add_store_to_sheet h ce' name = (True, h)"
    using ws env(3) cells True by (rule add_store_existing)
  ultimately show ?thesis using ws pos by auto
next
  case False
  let ?h1 = "h\<lparr>store_worksheet := Some (((''Store_Name'' # ks) # rows) @ [[strip name]])\<rparr>"
  have first: "add_store_to_sheet h ce name = (True, ?h1)"
    using ws env(1,2) cells False by (rule add_store_new)
  have ws1: "store_worksheet ?h1 = Some ((''Store_Name'' # ks) # rows @ [[strip name]])"
    by simp
  have "add_store_to_sheet ?h1 ce' name = (True, ?h1)"
    using ws1 env(3) text_after_snoc [OF key cells nm] count_after_snoc(2) [OF key False]
    by (rule add_store_existing)
  with first ws1 count_after_snoc(1) [OF key False] show ?thesis by auto
qed

lemma add_employee_twice:
  assumes ws: "employee_worksheet h = Some ((''Employee_Name'' # ks) # rows)"
    and key: "''Employee_Name'' \<notin> set ks"
    and env: "read_exn ce = None" "append_exn ce = None" "read_exn ce' = None"
    and cells: "\<forall>record \<in> set (get_all_records ((''Employee_Name'' # ks) # rows)).
           \<exists>v. record_get record ''Employee_Name'' (PyStr []) = PyStr v"
    and nm: "numericise (strip name) = PyStr (strip name)"
  shows "\<exists>h1 ws1. add_employee_to_sheet h ce name = (True, h1)
           \<and> add_employee_to_sheet h1 ce' name = (True, h1)
           \<and> employee_worksheet h1 = Some ws1
           \<and> (count_list (catalog_names ''Employee_Name'' ((''Employee_Name'' # ks) # rows))
                 (strip name) \<le> 1
                \<longrightarrow> count_list (catalog_names ''Employee_Name'' ws1) (strip name) = 1)"
proof (cases "strip name \<in> set (catalog_names ''Employee_Name'' ((''Employee_Name'' # ks) # rows))")
  case True
  then have pos: "count_list (catalog_names ''Employee_Name'' ((''Employee_Name'' # ks) # rows))
      (strip name) \<noteq> 0"
    by (simp add: count_list_0_iff)
  have "add_employee_to_sheet h ce name = (True, h)"
    using ws env(1) cells True by (rule add_employee_existing)
  moreover have "add_employee_to_sheet h ce' name = (True, h)"
    using ws env(3) cells True by (rule add_employee_existing)
  ultimately show ?thesis using ws pos by auto
next
  case False
  let ?h1 = "h\<lparr>employee_worksheet := Some (((''Employee_Name'' # ks) # rows) @ [[strip name]])\<rparr>"
  have first: "add_employee_to_sheet h ce name = (True, ?h1)"
    using ws env(1,2) cells False by (rule add_employee_new)
  have ws1: "employee_worksheet ?h1 = Some ((''Employee_Name'' # ks) # rows @ [[strip name]])"
    by simp
  have "add_employee_to_sheet ?h1 ce' name = (True, ?h1)"
    using ws1 env(3) text_after_snoc [OF key cells nm] count_after_snoc(2) [OF key False]
    by (rule add_employee_existing)
  with first ws1 count_after_snoc(1) [OF key False] show ?thesis by auto
qed

lemma example_cells:
  "numericise ''Main Store'' = PyStr ''Main Store''" "numericise ''Jane Doe'' = PyStr ''Jane Doe''"
  "numericise ''123'' = PyInt ''123''" "strip ''123'' = ''123''"
  by code_simp+

text \<open>
  C6 at a concrete name: the store 123 is added to a catalog that holds Main Store. The
  first addition appends the row and reports success. The second addition reads the cell
  back as the number 123, \<open>.strip()\<close> raises on it, and the addition reports failure with
  an error, although the trimmed name is in the catalog. The employee catalog behaves the
  same.
\<close>

theorem numeric_name_added_twice_reports_failure:
  "add_store_to_sheet example_handler catalog_fine ''123''
     = (True, example_handler\<lparr>store_worksheet :=
                Some [[''Store_Name''], [''Main Store''], [''123'']]\<rparr>)
   \<and> add_store_to_sheet
         (example_handler\<lparr>store_worksheet :=
            Some [[''Store_Name''], [''Main Store''], [''123'']]\<rparr>) catalog_fine ''123''
     = (False, say (Error ''Error adding store: int object has no attribute strip'')
                 (example_handler\<lparr>store_worksheet :=
                    Some [[''Store_Name''], [''Main Store''], [''123'']]\<rparr>))
   \<and> add_employee_to_sheet example_handler catalog_fine ''123''
     = (True, example_handler\<lparr>employee_worksheet :=
                Some [[''Employee_Name''], [''Jane Doe''], [''123'']]\<rparr>)
   \<and> add_employee_to_sheet
         (example_handler\<lparr>employee_worksheet :=
            Some [[''Employee_Name''], [''Jane Doe''], [''123'']]\<rparr>) catalog_fine ''123''
     = (False, say (Error ''Error adding employee: int object has no attribute strip'')
                 (example_handler\<lparr>employee_worksheet :=
                    Some [[''Employee_Name''], [''Jane Doe''], [''123'']]\<rparr>))"
  by (simp add: add_store_to_sheet_def add_employee_to_sheet_def get_all_records_def
      record_get_def example_cells example_strips example_handler_def catalog_fine_def)

section \<open>Properties of the submit branch\<close>







lemma validate_reason:
  "''Reason is required when not participating'' \<in> set (validate f)
     \<longleftrightarrow> participation_select f = No \<and> strip (reason_input f) = []"
  by (auto simp: validate_def non_participation_reason_def)


lemma say_frame:
  "bucket (say m h) = bucket h" "main_worksheet (say m h) = main_worksheet h"
  "store_worksheet (say m h) = store_worksheet h"
  "employee_worksheet (say m h) = employee_worksheet h"
  "objects_of (say m h) = objects_of h" "shown (say m h) = shown h @ [m]"
  by (simp_all add: say_def objects_of_def)




text \<open>What the steps of the submit branch leave untouched.\<close>

lemma upload_image_frame:
  "main_worksheet (snd (upload_image h ue i s n r)) = main_worksheet h"
  "store_worksheet (snd (upload_image h ue i s n r)) = store_worksheet h"
  "employee_worksheet (snd (upload_image h ue i s n r)) = employee_worksheet h"
  "bucket (snd (upload_image h ue i s n r)) = None \<longleftrightarrow> bucket h = None"
  by (cases rule: upload_image_cases [where h = h and ue = ue and img = i];
      simp add: upload_image_no_bucket upload_image_process_exn upload_image_jpeg_exn
        upload_image_upload_exn upload_image_public upload_image_not_public say_def)+

lemma upload_image_keeps_objects:
  "dom (objects_of h) \<subseteq> dom (objects_of (snd (upload_image h ue i s n r)))"
  by (cases rule: upload_image_cases [where h = h and ue = ue and img = i];
      auto simp add: upload_image_no_bucket upload_image_process_exn upload_image_jpeg_exn
        upload_image_upload_exn upload_image_public upload_image_not_public say_def
        objects_of_def)

lemma upload_image_None_iff:
  "fst (upload_image h ue i s n r) = None
     \<longleftrightarrow> bucket h = None \<or> process_exn ue \<noteq> None \<or> (\<exists>e. jpeg_of i = Inl e)
         \<or> upload_exn ue \<noteq> None"
  by (cases rule: upload_image_cases [where h = h and ue = ue and img = i];
      simp add: upload_image_no_bucket upload_image_process_exn upload_image_jpeg_exn
        upload_image_upload_exn upload_image_public upload_image_not_public)

text \<open>Whether an upload returns a URL does not depend on the names, the role or the sheets.\<close>

lemma upload_image_None_cong:
  assumes "bucket h' = None \<longleftrightarrow> bucket h = None"
  shows "fst (upload_image h' ue i s' n' r') = None \<longleftrightarrow> fst (upload_image h ue i s n r) = None"
  unfolding upload_image_None_iff using assms by simp

lemma add_store_frame:
  "main_worksheet (snd (add_store_to_sheet h ce name)) = main_worksheet h"
  "bucket (snd (add_store_to_sheet h ce name)) = bucket h"
  by (simp_all add: add_store_to_sheet_def say_def split: option.splits lookup.splits)

lemma add_employee_frame:
  "main_worksheet (snd (add_employee_to_sheet h ce name)) = main_worksheet h"
  "bucket (snd (add_employee_to_sheet h ce name)) = bucket h"
  by (simp_all add: add_employee_to_sheet_def say_def split: option.splits lookup.splits)

lemma objects_of_cong: "bucket h' = bucket h \<Longrightarrow> objects_of h' = objects_of h"
  by (simp add: objects_of_def)

lemma save_data_bucket: "bucket (snd (save_data h exn d)) = bucket h"
  by (simp add: save_data_def say_def split: option.splits)

lemma record_phase_bucket: "bucket (record_phase h ev f eu pu du) = bucket h"
proof (cases "save_data h (save_exn ev) (build_data ev f eu pu du)")
  case (Pair ok h1)
  with save_data_bucket [of h "save_exn ev" "build_data ev f eu pu du"]
  have "bucket h1 = bucket h" by simp
  with Pair show ?thesis
    by (simp add: record_phase_def say_frame split: bool.splits)
qed

lemma record_phase_fail:
  "\<not> (truthy eu \<and> truthy pu) \<Longrightarrow>
   record_phase h ev f eu pu du = say (Error ''Failed to upload images'') h"
  by (auto simp add: record_phase_def)

lemma record_phase_saved:
  assumes "truthy eu" and "truthy pu" and "main_worksheet h = Some ws" and "save_exn ev = None"
  shows "main_worksheet (record_phase h ev f eu pu du)
           = Some (ws @ [row_data (build_data ev f eu pu du)])"
  using assms by (simp add: record_phase_def save_data_def say_frame)

text \<open>
  The upload part with both required files opened, written with projections: \<open>r1\<close>,
  \<open>r2\<close> and \<open>r3\<close> are the results of the three calls of \<open>upload_image\<close>.
\<close>

lemma upload_phase_opened:
  assumes "education_photo f = Some (Inr ie)" and "poster_photo f = Some (Inr ip)"
  shows "upload_phase h ev f =
     (let r1 = upload_image h (education_env ev) ie (store_name f) (employee_name f)
                 ''education'';
          r2 = upload_image (snd r1) (poster_env ev) ip (store_name f) (employee_name f)
                 ''poster''
      in case (if participation_select f = Yes then display_photo f else None) of
           None \<Rightarrow> record_phase (snd r2) ev f (fst r1) (fst r2) (Some [])
         | Some (Inl e) \<Rightarrow> processing_error e (snd r2)
         | Some (Inr idp) \<Rightarrow>
             (let r3 = upload_image (snd r2) (display_env ev) idp (store_name f)
                         (employee_name f) ''display_competition''
              in record_phase (snd r3) ev f (fst r1) (fst r2) (fst r3)))"
  using assms
  by (simp add: upload_phase_def Let_def split_beta display_competition_photo_def
      split: option.splits sum.splits)

lemma upload_phase_not_opened:
  assumes "\<not> (\<exists>ie ip. education_photo f = Some (Inr ie) \<and> poster_photo f = Some (Inr ip))"
  shows "\<exists>e. upload_phase h ev f = processing_error e h"
  using assms
  by (auto simp add: upload_phase_def split: option.splits sum.splits)

lemma upload_phase_keeps_uploaded:
  assumes o: "education_photo f = Some (Inr ie)" "poster_photo f = Some (Inr ip)"
  shows "dom (objects_of (snd (upload_image h (education_env ev) ie (store_name f)
            (employee_name f) ''education'')))
          \<subseteq> dom (objects_of (upload_phase h ev f))"
proof -
  define r1 where "r1 = upload_image h (education_env ev) ie (store_name f) (employee_name f)
                 ''education''"
  define r2 where "r2 = upload_image (snd r1) (poster_env ev) ip (store_name f)
                 (employee_name f) ''poster''"
  have s2: "dom (objects_of (snd r1)) \<subseteq> dom (objects_of (snd r2))"
    unfolding r2_def by (rule upload_image_keeps_objects)
  have s3: "dom (objects_of (snd r2))
      \<subseteq> dom (objects_of (snd (upload_image (snd r2) ue i s n r)))" for ue i s n r
    by (rule upload_image_keeps_objects)
  have rp: "objects_of (record_phase h' ev f eu pu du) = objects_of h'" for h' eu pu du
    by (rule objects_of_cong) (rule record_phase_bucket)
  have "dom (objects_of (snd r2)) \<subseteq> dom (objects_of (upload_phase h ev f))"
    unfolding upload_phase_opened [OF o] Let_def r1_def [symmetric] r2_def [symmetric]
    using s3 by (simp add: rp processing_error_def say_frame split: option.splits sum.splits)
  with s2 show ?thesis unfolding r1_def by blast
qed

lemma upload_phase_keeps_objects:
  "dom (objects_of h) \<subseteq> dom (objects_of (upload_phase h ev f))"
proof (cases "\<exists>ie ip. education_photo f = Some (Inr ie) \<and> poster_photo f = Some (Inr ip)")
  case False
  from upload_phase_not_opened [OF False] obtain e
    where "upload_phase h ev f = processing_error e h" by blast
  then show ?thesis by (simp add: processing_error_def say_frame)
next
  case True
  then obtain ie ip where o: "education_photo f = Some (Inr ie)" "poster_photo f = Some (Inr ip)"
    by blast
  have "dom (objects_of h) \<subseteq> dom (objects_of (snd (upload_image h (education_env ev) ie
      (store_name f) (employee_name f) ''education'')))"
    by (rule upload_image_keeps_objects)
  with upload_phase_keeps_uploaded [OF o] show ?thesis by blast
qed

lemma upload_phase_no_row:
  assumes "(\<exists>ie. education_photo f = Some (Inr ie)
              \<and> fst (upload_image h (education_env ev) ie s n r) = None)
           \<or> (\<exists>ip. poster_photo f = Some (Inr ip)
              \<and> fst (upload_image h (poster_env ev) ip s' n' r') = None)"
  shows "main_worksheet (upload_phase h ev f) = main_worksheet h"
proof (cases "\<exists>ie ip. education_photo f = Some (Inr ie) \<and> poster_photo f = Some (Inr ip)")
  case False
  from upload_phase_not_opened [OF False] obtain e
    where "upload_phase h ev f = processing_error e h" by blast
  then show ?thesis by (simp add: processing_error_def say_frame)
next
  case True
  then obtain ie ip where o: "education_photo f = Some (Inr ie)" "poster_photo f = Some (Inr ip)"
    by blast
  define r1 where "r1 = upload_image h (education_env ev) ie (store_name f) (employee_name f)
                 ''education''"
  define r2 where "r2 = upload_image (snd r1) (poster_env ev) ip (store_name f)
                 (employee_name f) ''poster''"
  have w1: "main_worksheet (snd r1) = main_worksheet h"
    unfolding r1_def by (rule upload_image_frame)
  have w2: "main_worksheet (snd r2) = main_worksheet (snd r1)"
    unfolding r2_def by (rule upload_image_frame)
  have w3: "main_worksheet (snd (upload_image (snd r2) ue i s n r)) = main_worksheet (snd r2)"
    for ue i s n r
    by (rule upload_image_frame)
  have b1: "bucket (snd r1) = None \<longleftrightarrow> bucket h = None"
    unfolding r1_def by (rule upload_image_frame)
  from assms o have "fst (upload_image h (education_env ev) ie s n r) = None
      \<or> fst (upload_image h (poster_env ev) ip s' n' r') = None"
    by auto
  moreover have "fst r1 = None \<longleftrightarrow> fst (upload_image h (education_env ev) ie s n r) = None"
    unfolding r1_def by (rule upload_image_None_cong) simp
  moreover have "fst r2 = None \<longleftrightarrow> fst (upload_image h (poster_env ev) ip s' n' r') = None"
    unfolding r2_def using b1 by (rule upload_image_None_cong)
  ultimately have "fst r1 = None \<or> fst r2 = None"
    by simp
  then have "\<not> (truthy (fst r1) \<and> truthy (fst r2))"
    by (auto simp: truthy_def)
  then have rp: "record_phase h' ev f (fst r1) (fst r2) du
      = say (Error ''Failed to upload images'') h'" for h' du
    by (rule record_phase_fail)
  have "main_worksheet (upload_phase h ev f) = main_worksheet (snd r2)"
    unfolding upload_phase_opened [OF o] Let_def r1_def [symmetric] r2_def [symmetric]
    by (simp add: rp w3 processing_error_def say_frame split: option.splits sum.splits)
  with w1 w2 show ?thesis by simp
qed

text \<open>
  The submit branch ends in one of four ways; in each the state the last step starts
  from has the main sheet and the bucket of the beginning.
\<close>

lemma submit_cases:
  "\<exists>h2. main_worksheet h2 = main_worksheet h \<and> bucket h2 = bucket h
     \<and> (submit h ev f = say (ErrorBox (validate f)) h2
         \<or> submit h ev f = say (Error ''Failed to add store'') h2
         \<or> submit h ev f = say (Error ''Failed to add employee'') h2
         \<or> submit h ev f = upload_phase h2 ev f)"
proof -
  define a1 where "a1 = (if store_selection f = ''+ New Store''
      then add_store_to_sheet h (store_env ev) (store_name f) else (True, h))"
  define a2 where "a2 = (if employee_selection f = ''+ New Employee''
      then add_employee_to_sheet (snd a1) (employee_env ev) (employee_name f)
      else (True, snd a1))"
  have f1: "main_worksheet (snd a1) = main_worksheet h" "bucket (snd a1) = bucket h"
    by (simp_all add: a1_def add_store_frame)
  have f2: "main_worksheet (snd a2) = main_worksheet h" "bucket (snd a2) = bucket h"
    by (simp_all add: a2_def add_employee_frame f1)
  have "submit h ev f =
     (if validate f \<noteq> [] then say (ErrorBox (validate f)) h
      else if \<not> fst a1 then say (Error ''Failed to add store'') (snd a1)
      else if \<not> fst a2 then say (Error ''Failed to add employee'') (snd a2)
      else upload_phase (snd a2) ev f)"
    by (simp add: submit_def Let_def split_beta a1_def [symmetric] a2_def [symmetric])
  with f1 f2 show ?thesis by metis
qed

text \<open>
  C2: when the upload of the education photo or of the poster photo of the form returns
  no URL, the submit branch
  appends no row to the main sheet, and every object that was in storage is still there.
  An education photo that was uploaded before the poster upload failed stays in storage
  under its path, without a row.
\<close>

theorem failed_required_upload_appends_no_row:
  assumes "(\<exists>ie. education_photo f = Some (Inr ie)
              \<and> fst (upload_image h (education_env ev) ie s n r) = None)
           \<or> (\<exists>ip. poster_photo f = Some (Inr ip)
              \<and> fst (upload_image h (poster_env ev) ip s' n' r') = None)"
  shows "main_worksheet (submit h ev f) = main_worksheet h
         \<and> dom (objects_of h) \<subseteq> dom (objects_of (submit h ev f))
         \<and> main_worksheet (upload_phase h ev f) = main_worksheet h
         \<and> (\<forall>ie' ip' u. education_photo f = Some (Inr ie')
               \<longrightarrow> poster_photo f = Some (Inr ip')
               \<longrightarrow> fst (upload_image h (education_env ev) ie' (store_name f) (employee_name f)
                          ''education'') = Some u
               \<longrightarrow> object_path (education_env ev) (store_name f) (employee_name f) ''education''
                     \<in> dom (objects_of (upload_phase h ev f)))"
proof -
  obtain h2 where h2: "main_worksheet h2 = main_worksheet h" "bucket h2 = bucket h"
    and sub: "submit h ev f = say (ErrorBox (validate f)) h2
         \<or> submit h ev f = say (Error ''Failed to add store'') h2
         \<or> submit h ev f = say (Error ''Failed to add employee'') h2
         \<or> submit h ev f = upload_phase h2 ev f"
    using submit_cases by blast
  have same: "bucket h2 = None \<longleftrightarrow> bucket h = None"
    using h2(2) by simp
  from assms have fail2: "(\<exists>ie. education_photo f = Some (Inr ie)
              \<and> fst (upload_image h2 (education_env ev) ie s n r) = None)
           \<or> (\<exists>ip. poster_photo f = Some (Inr ip)
              \<and> fst (upload_image h2 (poster_env ev) ip s' n' r') = None)"
    unfolding upload_image_None_cong [OF same, of _ _ s n r s n r]
      upload_image_None_cong [OF same, of _ _ s' n' r' s' n' r'] .
  have o2: "objects_of h2 = objects_of h"
    using h2(2) by (rule objects_of_cong)
  have row: "main_worksheet (submit h ev f) = main_worksheet h"
    using sub upload_phase_no_row [OF fail2] h2 by (auto simp: say_frame)
  have keep: "dom (objects_of h) \<subseteq> dom (objects_of (submit h ev f))"
    using sub upload_phase_keeps_objects [of h2 ev f] o2 by (auto simp: say_frame)
  have orphan: "object_path (education_env ev) (store_name f) (employee_name f) ''education''
                     \<in> dom (objects_of (upload_phase h ev f))"
    if o: "education_photo f = Some (Inr ie')" "poster_photo f = Some (Inr ip')"
      and u: "fst (upload_image h (education_env ev) ie' (store_name f) (employee_name f)
                          ''education'') = Some u"
    for ie' ip' u
  proof -
    from u have "upload_image h (education_env ev) ie' (store_name f) (employee_name f)
        ''education'' = (Some u, snd (upload_image h (education_env ev) ie' (store_name f)
        (employee_name f) ''education''))"
      by (simp add: prod_eq_iff)
    from upload_image_Some [OF this]
    have "object_path (education_env ev) (store_name f) (employee_name f) ''education''
        \<in> dom (objects_of (snd (upload_image h (education_env ev) ie' (store_name f)
        (employee_name f) ''education'')))"
      by auto
    with upload_phase_keeps_uploaded [OF o] show ?thesis by blast
  qed
  from row keep upload_phase_no_row [OF assms] orphan show ?thesis by blast
qed

lemma example_form_fields:
  "store_name example_form = ''Main Store''" "employee_name example_form = ''Jane Doe''"
  "education_photo example_form = Some (Inr example_image)"
  "poster_photo example_form = Some (Inr example_image)"
  "display_photo example_form = Some (Inr example_image)"
  "participation_select example_form = Yes"
  "store_selection example_form \<noteq> ''+ New Store''"
  "employee_selection example_form \<noteq> ''+ New Employee''"
  "entry_date example_form = example_now"
  by (simp_all add: example_form_def store_name_def employee_name_def)

lemma example_form_valid: "validate example_form = []"
  by code_simp

theorem failed_required_upload_appends_no_row_witness:
  "fst (upload_image example_handler (poster_env (example_env\<lparr>poster_env := upload_broken\<rparr>))
          example_image ''Main Store'' ''Jane Doe'' ''poster'') = None
   \<and> main_worksheet (submit example_handler (example_env\<lparr>poster_env := upload_broken\<rparr>)
          example_form) = Some []
   \<and> ''gramedia-display/Main_Store/Jane_Doe/2024-03-09/education/070500_1a2b3c4d.jpg''
       \<in> dom (objects_of (upload_phase example_handler
                (example_env\<lparr>poster_env := upload_broken\<rparr>) example_form))"
proof -
  let ?ev = "example_env\<lparr>poster_env := upload_broken\<rparr>"
  have hyp: "fst (upload_image example_handler (poster_env ?ev) example_image ''Main Store''
      ''Jane Doe'' ''poster'') = None"
    by (simp add: upload_image_None_iff upload_broken_def)
  then have dis: "(\<exists>ie. education_photo example_form = Some (Inr ie)
        \<and> fst (upload_image example_handler (education_env ?ev) ie
        ''Main Store'' ''Jane Doe'' ''education'') = None)
      \<or> (\<exists>ip. poster_photo example_form = Some (Inr ip)
        \<and> fst (upload_image example_handler (poster_env ?ev) ip ''Main Store''
        ''Jane Doe'' ''poster'') = None)"
    using example_form_fields(4) by blast
  have edu: "fst (upload_image example_handler (education_env ?ev) example_image
      (store_name example_form) (employee_name example_form) ''education'')
     = Some ''https://storage.googleapis.com/photos/gramedia-display/Main_Store/Jane_Doe/2024-03-09/education/070500_1a2b3c4d.jpg''"
    by (simp add: example_form_fields example_env_def example_upload)
  have path: "object_path (education_env ?ev) (store_name example_form)
      (employee_name example_form) ''education''
     = ''gramedia-display/Main_Store/Jane_Doe/2024-03-09/education/070500_1a2b3c4d.jpg''"
    by (simp add: example_form_fields example_env_def example_object_path)
  from failed_required_upload_appends_no_row [OF dis]
  have row: "main_worksheet (submit example_handler ?ev example_form)
      = main_worksheet example_handler"
    and orphan: "education_photo example_form = Some (Inr example_image)
       \<longrightarrow> poster_photo example_form = Some (Inr example_image)
       \<longrightarrow> fst (upload_image example_handler (education_env ?ev) example_image
              (store_name example_form) (employee_name example_form) ''education'')
            = Some ''https://storage.googleapis.com/photos/gramedia-display/Main_Store/Jane_Doe/2024-03-09/education/070500_1a2b3c4d.jpg''
       \<longrightarrow> object_path (education_env ?ev) (store_name example_form)
             (employee_name example_form) ''education''
           \<in> dom (objects_of (upload_phase example_handler ?ev example_form))"
    by blast+
  from orphan edu have "object_path (education_env ?ev) (store_name example_form)
             (employee_name example_form) ''education''
           \<in> dom (objects_of (upload_phase example_handler ?ev example_form))"
    by (simp add: example_form_fields)
  with row hyp show ?thesis
    unfolding path by (simp add: example_handler_def)
qed

lemma submit_existing:
  assumes "validate f = []" and "store_selection f \<noteq> ''+ New Store''"
    and "employee_selection f \<noteq> ''+ New Employee''"
  shows "submit h ev f = upload_phase h ev f"
  using assms by (simp add: submit_def)

lemma upload_image_bucket_name:
  assumes "bucket h = Some b"
  shows "\<exists>b'. bucket (snd (upload_image h ue i s n r)) = Some b' \<and> bucket_name b' = bucket_name b"
  using assms
  by (cases rule: upload_image_cases [where h = h and ue = ue and img = i];
      simp add: upload_image_no_bucket upload_image_process_exn upload_image_jpeg_exn
        upload_image_upload_exn upload_image_public upload_image_not_public say_def)

lemma truthy_public_url: "truthy (Some (public_url name path))"
  by (simp add: truthy_def public_url_def)

text \<open>
  A participating submission whose two required uploads succeed and whose display upload
  fails: the row is appended all the same, with \<open>None\<close> in the display column.
\<close>

lemma upload_phase_display_fails:
  assumes o: "education_photo f = Some (Inr ie)" "poster_photo f = Some (Inr ip)"
    and yes: "participation_select f = Yes" and d: "display_photo f = Some (Inr idp)"
    and b: "bucket h = Some b"
    and e_ok: "process_exn (education_env ev) = None" "jpeg_of ie = Inr je"
      "upload_exn (education_env ev) = None"
    and p_ok: "process_exn (poster_env ev) = None" "jpeg_of ip = Inr jp"
      "upload_exn (poster_env ev) = None"
    and d_fail: "process_exn (display_env ev) \<noteq> None \<or> (\<exists>e. jpeg_of idp = Inl e)
      \<or> upload_exn (display_env ev) \<noteq> None"
    and ws: "main_worksheet h = Some ws" and save: "save_exn ev = None"
  shows "main_worksheet (upload_phase h ev f) =
     Some (ws @ [row_data (build_data ev f
        (Some (public_url (bucket_name b)
           (object_path (education_env ev) (store_name f) (employee_name f) ''education'')))
        (Some (public_url (bucket_name b)
           (object_path (poster_env ev) (store_name f) (employee_name f) ''poster'')))
        None)])"
proof -
  define r1 where "r1 = upload_image h (education_env ev) ie (store_name f) (employee_name f)
                 ''education''"
  define r2 where "r2 = upload_image (snd r1) (poster_env ev) ip (store_name f)
                 (employee_name f) ''poster''"
  define r3 where "r3 = upload_image (snd r2) (display_env ev) idp (store_name f)
                 (employee_name f) ''display_competition''"
  have u1: "fst r1 = Some (public_url (bucket_name b)
           (object_path (education_env ev) (store_name f) (employee_name f) ''education''))"
    unfolding r1_def using b e_ok by (rule upload_image_stored)
  obtain b1 where b1: "bucket (snd r1) = Some b1" "bucket_name b1 = bucket_name b"
    unfolding r1_def using upload_image_bucket_name [OF b] by blast
  have u2: "fst r2 = Some (public_url (bucket_name b)
           (object_path (poster_env ev) (store_name f) (employee_name f) ''poster''))"
    unfolding r2_def using upload_image_stored(1) [OF b1(1) p_ok] b1(2) by simp
  have u3: "fst r3 = None"
    unfolding r3_def upload_image_None_iff using d_fail by blast
  have w: "main_worksheet (snd r3) = Some ws"
    unfolding r3_def r2_def r1_def using ws by (simp add: upload_image_frame)
  have "upload_phase h ev f = record_phase (snd r3) ev f (fst r1) (fst r2) (fst r3)"
    unfolding upload_phase_opened [OF o] Let_def r1_def [symmetric] r2_def [symmetric]
    using yes d by (simp add: r3_def)
  moreover have "main_worksheet (record_phase (snd r3) ev f (fst r1) (fst r2) (fst r3))
      = Some (ws @ [row_data (build_data ev f (fst r1) (fst r2) (fst r3))])"
    using _ _ w save by (rule record_phase_saved) (simp_all add: u1 u2 truthy_public_url)
  ultimately show ?thesis by (simp add: u1 u2 u3)
qed

text \<open>
  The record invariant on the row built from a valid form, as long as a participating
  submission brings a non-empty display URL.
\<close>

lemma strip_Nil: "strip [] = []"
  by (simp add: strip_def)

lemma build_data_invariant:
  assumes "validate f = []" and "participation_select f = Yes \<longrightarrow> nonempty_cell du"
  shows "(participation_select f = Yes \<longrightarrow>
            nonempty_cell (display_url_of (row_data (build_data ev f eu pu du)))
            \<and> \<not> nonempty_cell (reason_of (row_data (build_data ev f eu pu du))))
       \<and> (participation_select f = No \<longrightarrow>
            \<not> nonempty_cell (display_url_of (row_data (build_data ev f eu pu du)))
            \<and> nonempty_cell (reason_of (row_data (build_data ev f eu pu du))))"
proof -
  have "participation_select f = No \<longrightarrow> strip (non_participation_reason f) \<noteq> []"
    using assms(1) validate_reason [of f] by (auto simp: non_participation_reason_def)
  then have "participation_select f = No \<longrightarrow> non_participation_reason f \<noteq> []"
    using strip_Nil by auto
  with assms(2) show ?thesis
    by (simp add: row_data_def build_data_def display_url_of_def reason_of_def
        nonempty_cell_def)
qed

text \<open>
  C1 at a concrete submission: the form is valid and participating, the education and
  poster uploads succeed and the write of the display upload raises. A row is appended
  whose participation is Yes and whose display URL and reason are both empty.
\<close>

theorem display_upload_failure_appends_row_without_display_url:
  "validate example_form = []
   \<and> fst (upload_image example_handler upload_broken example_image ''Main Store'' ''Jane Doe''
            ''display_competition'') = None
   \<and> main_worksheet (submit example_handler (example_env\<lparr>display_env := upload_broken\<rparr>)
         example_form)
       = Some [[Some ''Main Store'', Some ''Jane Doe'', Some ''2024-03-09'',
                Some ''https://storage.googleapis.com/photos/gramedia-display/Main_Store/Jane_Doe/2024-03-09/education/070500_1a2b3c4d.jpg'',
                Some ''https://storage.googleapis.com/photos/gramedia-display/Main_Store/Jane_Doe/2024-03-09/poster/070500_1a2b3c4d.jpg'',
                Some ''Yes'', None, Some [], Some ''2024-03-09 07:05:00'', Some ''Submitted'']]
   \<and> participation_of (last (the (main_worksheet (submit example_handler
         (example_env\<lparr>display_env := upload_broken\<rparr>) example_form)))) = Some ''Yes''
   \<and> \<not> nonempty_cell (display_url_of (last (the (main_worksheet (submit example_handler
         (example_env\<lparr>display_env := upload_broken\<rparr>) example_form)))))
   \<and> \<not> nonempty_cell (reason_of (last (the (main_worksheet (submit example_handler
         (example_env\<lparr>display_env := upload_broken\<rparr>) example_form)))))"
proof -
  let ?ev = "example_env\<lparr>display_env := upload_broken\<rparr>"
  have fail: "fst (upload_image example_handler upload_broken example_image ''Main Store''
      ''Jane Doe'' ''display_competition'') = None"
    by (simp add: upload_image_None_iff upload_broken_def)
  have sub: "submit example_handler ?ev example_form = upload_phase example_handler ?ev example_form"
    using example_form_valid example_form_fields(7,8) by (rule submit_existing)
  have envs: "education_env ?ev = upload_fine" "poster_env ?ev = upload_fine"
    "display_env ?ev = upload_broken" "save_exn ?ev = None" "submit_now ?ev = example_now"
    by (simp_all add: example_env_def)
  have fine: "process_exn upload_fine = None" "upload_exn upload_fine = None"
    by (simp_all add: upload_fine_def)
  have broken: "upload_exn upload_broken = Some ''503''"
    by (simp add: upload_broken_def)
  have hb: "bucket example_handler = Some \<lparr>bucket_name = ''photos'', objects = Map.empty\<rparr>"
    and hw: "main_worksheet example_handler = Some []"
    by (simp_all add: example_handler_def)
  have "main_worksheet (upload_phase example_handler ?ev example_form) =
     Some ([] @ [row_data (build_data ?ev example_form
        (Some (public_url (bucket_name \<lparr>bucket_name = ''photos'', objects = Map.empty\<rparr>)
           (object_path (education_env ?ev) (store_name example_form)
              (employee_name example_form) ''education'')))
        (Some (public_url (bucket_name \<lparr>bucket_name = ''photos'', objects = Map.empty\<rparr>)
           (object_path (poster_env ?ev) (store_name example_form)
              (employee_name example_form) ''poster'')))
        None)])"
    using example_form_fields(3,4,6,5) hb
    by (rule upload_phase_display_fails) (simp_all add: envs fine broken hw example_jpeg)
  then have row: "main_worksheet (submit example_handler ?ev example_form)
       = Some [[Some ''Main Store'', Some ''Jane Doe'', Some ''2024-03-09'',
                Some ''https://storage.googleapis.com/photos/gramedia-display/Main_Store/Jane_Doe/2024-03-09/education/070500_1a2b3c4d.jpg'',
                Some ''https://storage.googleapis.com/photos/gramedia-display/Main_Store/Jane_Doe/2024-03-09/poster/070500_1a2b3c4d.jpg'',
                Some ''Yes'', None, Some [], Some ''2024-03-09 07:05:00'', Some ''Submitted'']]"
    unfolding sub
    by (simp add: row_data_def build_data_def envs example_form_fields example_object_path
        public_url_def example_strips example_stamps)
  show ?thesis
    unfolding row
    using example_form_valid fail
    by (simp add: participation_of_def display_url_of_def reason_of_def nonempty_cell_def)
qed

end
